theory Spec2Isabelle
  imports Complex_Main
begin

section \<open>The AdGuard Home API client (pkg/client/client.go)\<close>

text \<open>
  The client wraps an HTTP library (resty) and exposes one Go method per API call. Every
  read goes through \<open>doGet\<close> and every mutation through \<open>doPost\<close>. The model keeps the
  source's names. Go's \<open>(value, error)\<close> results are sums or \<open>option\<close>s, a nil pointer is
  \<open>None\<close>, and the calls handed to the HTTP library are collected in a list, so that the
  number and the order of the calls an operation issues can be stated.

  Record fields are written qualified (\<open>AdGuardInstance.URL\<close>, \<open>Filter.URL\<close>) where two Go
  structs share a field name. Logging has no effect on results or calls and is left out,
  except where computing a log argument dereferences a pointer.
\<close>

subsection \<open>Instance configuration and the library's client\<close>

text \<open>\<open>types.AdGuardInstance\<close>: the fields \<open>New\<close> reads.\<close>

record AdGuardInstance =
  URL :: string
  APIPath :: string
  Username :: string
  Password :: string
  InsecureSkipVerify :: bool

text \<open>\<open>resty.User\<close>, the basic-auth credentials of a client or of a request.\<close>

record User =
  Username :: string
  Password :: string

datatype redirect_policy = NoRedirectPolicy | FlexibleRedirectPolicy int

text \<open>
  \<open>resty.Client\<close>, as far as \<open>New\<close> configures it: each field holds the argument of the
  setter that \<open>New\<close> calls (\<open>SetBaseURL\<close>, \<open>SetDisableWarn\<close>, \<open>SetTLSClientConfig\<close>,
  \<open>SetBasicAuth\<close>, \<open>SetRedirectPolicy\<close>). \<open>resty_New\<close> is the client before any setter.
\<close>

record resty_Client =
  BaseURL :: string
  DisableWarn :: bool
  TLSInsecureSkipVerify :: bool
  UserInfo :: "User option"
  RedirectPolicy :: "redirect_policy option"

definition resty_New :: resty_Client where
  "resty_New =
     \<lparr>BaseURL = [], DisableWarn = False, TLSInsecureSkipVerify = False,
      UserInfo = None, RedirectPolicy = None\<rparr>"

text \<open>The \<open>client\<close> struct (its logger left out).\<close>

record client =
  client :: resty_Client
  host :: string

subsection \<open>Errors and results\<close>

text \<open>
  \<open>ErrSetupNeeded\<close> is the package's sentinel. \<open>ErrorString m\<close> is an error built here
  with \<open>errors.New\<close> or \<open>fmt.Errorf\<close>, \<open>m\<close> its message. \<open>ForeignError m\<close> is an error
  value that a library (resty, net/url) returned and the client passes on.
\<close>

datatype error = ErrSetupNeeded | ErrorString string | ForeignError string

text \<open>
  What a method with result type \<open>error\<close> does: it returns nil (\<open>Returns None\<close>) or an
  error, or it panics on a nil pointer.
\<close>

datatype outcome = Returns "error option" | Panics

subsection \<open>Requests, responses and the HTTP library\<close>

text \<open>
  Payload types of the packages \<open>types\<close> and \<open>model\<close>, with the fields this file reads or
  sets. The numeric types \<open>float64\<close>, \<open>model.QueryLogConfigInterval\<close> and
  \<open>model.StatsConfigInterval\<close> are only passed through; they are taken as reals. The
  structs the client never looks into are opaque types.
\<close>

record RewriteEntry =
  Domain :: string
  Answer :: string

record Filter =
  ID :: int
  Name :: string
  URL :: string
  Whitelist :: bool
  Enabled :: bool

record FilterUpdate =
  Whitelist :: bool
  URL :: string
  Data :: Filter

record Client =
  Name :: string

record ClientUpdate =
  Name :: string
  Data :: Client

record DhcpStaticLease =
  Mac :: string
  Ip :: string
  Hostname :: string

record AddressInfo =
  Ip :: string
  Port :: int

record InitialConfiguration =
  Web :: AddressInfo
  Dns :: AddressInfo
  Username :: string
  Password :: string

type_synonym float64 = real
type_synonym QueryLogConfigInterval = real
type_synonym StatsConfigInterval = real

typedecl AccessList
typedecl DNSConfig
typedecl DhcpConfig

text \<open>
  The value given to \<open>SetBody\<close>. \<open>UserRules_body rules\<close> stands for the string
  \<open>rules.String()\<close>; the three last-but-one constructors take a pointer that may be nil.
\<close>

datatype body =
    NoBody
  | RewriteEntry_body RewriteEntry
  | Filter_body Filter
  | FilterUpdate_body FilterUpdate
  | RefreshFilter_body bool
  | Protection_body bool
  | UserRules_body "string list"
  | FilteringConfig_body bool float64
  | BlockedServicesArray_body "string list"
  | Client_body Client
  | ClientUpdate_body ClientUpdate
  | ClientDelete_body string
  | QueryLogConfig_body bool QueryLogConfigInterval bool
  | StatsConfig_body StatsConfigInterval
  | InitialConfiguration_body InitialConfiguration
  | AccessList_body "AccessList option"
  | DNSConfig_body "DNSConfig option"
  | DhcpConfig_body "DhcpConfig option"
  | DhcpStaticLease_body DhcpStaticLease

text \<open>The type of the object given to \<open>SetResult\<close>, into which the library decodes.\<close>

datatype result_target =
    Status_result
  | RewriteEntries_result
  | EnableConfig_result
  | FilteringStatus_result
  | BlockedServicesArray_result
  | Clients_result
  | QueryLogConfig_result
  | StatsConfig_result
  | AccessList_result
  | DNSConfig_result
  | DhcpStatus_result

text \<open>\<open>resty.Request\<close>: what the client sets on a request.\<close>

record Request =
  Body :: body
  Result :: "result_target option"
  Trace :: bool
  UserInfo :: "User option"

definition EnableTrace :: "Request \<Rightarrow> Request" where
  "EnableTrace req = req\<lparr>Request.Trace := True\<rparr>"

definition SetResult :: "result_target \<Rightarrow> Request \<Rightarrow> Request" where
  "SetResult t req = req\<lparr>Request.Result := Some t\<rparr>"

definition SetBody :: "body \<Rightarrow> Request \<Rightarrow> Request" where
  "SetBody b req = req\<lparr>Request.Body := b\<rparr>"

text \<open>
  \<open>resty.Response\<close> through its accessors \<open>StatusCode()\<close>, \<open>Status()\<close>, \<open>Header()\<close> and
  \<open>Body()\<close>. A header maps a canonical name to its first value; \<open>Header_Get\<close> is Go's
  \<open>http.Header.Get\<close>, the empty string for a missing name.
\<close>

record Response =
  StatusCode :: int
  Status :: string
  Header :: "string \<rightharpoonup> string"
  Body :: string

definition Header_Get :: "(string \<rightharpoonup> string) \<Rightarrow> string \<Rightarrow> string" where
  "Header_Get h k = (case h k of None \<Rightarrow> [] | Some v \<Rightarrow> v)"

datatype http_method = GET | POST

text \<open>One call handed to the library: \<open>req.Get(url)\<close> or \<open>req.Post(url)\<close> on a client.\<close>

record Call =
  call_method :: http_method
  call_url :: string
  call_request :: Request
  call_client :: resty_Client

text \<open>
  The HTTP library is a parameter. \<open>R\<close> is \<open>Client.R()\<close>, the fresh request of a client.
  \<open>Execute\<close> is \<open>Request.Get\<close>/\<open>Request.Post\<close>: given the calls issued so far and the
  call, the pair \<open>(resp, err)\<close> that Go returns, either of which may be nil. A reply may
  depend on every earlier call, so the appliance behind the library has state.
\<close>

record resty =
  R :: "resty_Client \<Rightarrow> Request"
  Execute :: "Call list \<Rightarrow> Call \<Rightarrow> Response option \<times> string option"

subsection \<open>\<open>doGet\<close> and \<open>doPost\<close>\<close>

text \<open>The call that \<open>req.Get(url)\<close> or \<open>req.Post(url)\<close> hands to the library.\<close>

definition mk_call :: "http_method \<Rightarrow> client \<Rightarrow> Request \<Rightarrow> string \<Rightarrow> Call" where
  "mk_call m cl req url =
     \<lparr>call_method = m, call_url = url, call_request = req, call_client = client.client cl\<rparr>"

text \<open>
  Both return the outcome and the calls issued so far with the new call appended. In the
  error branch the log line is built from \<open>resp.StatusCode()\<close> and \<open>resp.Body()\<close> with no
  nil check, and so is the log line of the success branch: with a nil \<open>resp\<close> these read
  through a nil pointer.
\<close>

definition doGet :: "resty \<Rightarrow> client \<Rightarrow> Request \<Rightarrow> string \<Rightarrow> Call list \<Rightarrow> outcome \<times> Call list" where
  "doGet lib cl req url calls =
     (let c = mk_call GET cl req url;
          (resp, err) = Execute lib calls c
      in (case err of
            Some e \<Rightarrow>
              (case resp of
                 Some r \<Rightarrow>
                   if Response.StatusCode r = 302
                        \<and> Header_Get (Response.Header r) ''Location'' = ''/install.html''
                   then Returns (Some ErrSetupNeeded)
                   else Returns (Some (ForeignError e))
               | None \<Rightarrow> Panics)
          | None \<Rightarrow>
              (case resp of
                 Some r \<Rightarrow>
                   if Response.StatusCode r \<noteq> 200
                   then Returns (Some (ErrorString (Response.Status r)))
                   else Returns None
               | None \<Rightarrow> Panics),
          calls @ [c]))"

definition doPost :: "resty \<Rightarrow> client \<Rightarrow> Request \<Rightarrow> string \<Rightarrow> Call list \<Rightarrow> outcome \<times> Call list" where
  "doPost lib cl req url calls =
     (let c = mk_call POST cl req url;
          (resp, err) = Execute lib calls c
      in (case err of
            Some e \<Rightarrow>
              (case resp of
                 Some r \<Rightarrow> Returns (Some (ForeignError e))
               | None \<Rightarrow> Panics)
          | None \<Rightarrow>
              (case resp of
                 Some r \<Rightarrow>
                   if Response.StatusCode r \<noteq> 200
                   then Returns (Some (ErrorString (Response.Status r)))
                   else Returns None
               | None \<Rightarrow> Panics),
          calls @ [c]))"

subsection \<open>Read operations\<close>

text \<open>
  A Go read returns the decoded object together with the error. The object is whatever
  the library stored into the \<open>SetResult\<close> target; the model returns the error part.
\<close>

definition Status :: "resty \<Rightarrow> client \<Rightarrow> Call list \<Rightarrow> outcome \<times> Call list" where
  "Status lib cl =
     doGet lib cl (SetResult Status_result (EnableTrace (R lib (client.client cl)))) ''status''"

definition RewriteList :: "resty \<Rightarrow> client \<Rightarrow> Call list \<Rightarrow> outcome \<times> Call list" where
  "RewriteList lib cl =
     doGet lib cl (SetResult RewriteEntries_result (EnableTrace (R lib (client.client cl))))
       ''/rewrite/list''"

definition toggleStatus :: "resty \<Rightarrow> client \<Rightarrow> string \<Rightarrow> Call list \<Rightarrow> outcome \<times> Call list" where
  "toggleStatus lib cl mode =
     doGet lib cl (SetResult EnableConfig_result (EnableTrace (R lib (client.client cl))))
       (''/'' @ mode @ ''/status'')"

definition SafeBrowsing :: "resty \<Rightarrow> client \<Rightarrow> Call list \<Rightarrow> outcome \<times> Call list" where
  "SafeBrowsing lib cl = toggleStatus lib cl ''safebrowsing''"

definition Parental :: "resty \<Rightarrow> client \<Rightarrow> Call list \<Rightarrow> outcome \<times> Call list" where
  "Parental lib cl = toggleStatus lib cl ''parental''"

definition SafeSearch :: "resty \<Rightarrow> client \<Rightarrow> Call list \<Rightarrow> outcome \<times> Call list" where
  "SafeSearch lib cl = toggleStatus lib cl ''safesearch''"

definition Filtering :: "resty \<Rightarrow> client \<Rightarrow> Call list \<Rightarrow> outcome \<times> Call list" where
  "Filtering lib cl =
     doGet lib cl (SetResult FilteringStatus_result (EnableTrace (R lib (client.client cl))))
       ''/filtering/status''"

definition BlockedServices :: "resty \<Rightarrow> client \<Rightarrow> Call list \<Rightarrow> outcome \<times> Call list" where
  "BlockedServices lib cl =
     doGet lib cl (SetResult BlockedServicesArray_result (EnableTrace (R lib (client.client cl))))
       ''/blocked_services/list''"

definition Clients :: "resty \<Rightarrow> client \<Rightarrow> Call list \<Rightarrow> outcome \<times> Call list" where
  "Clients lib cl =
     doGet lib cl (SetResult Clients_result (EnableTrace (R lib (client.client cl)))) ''/clients''"

definition QueryLogConfig :: "resty \<Rightarrow> client \<Rightarrow> Call list \<Rightarrow> outcome \<times> Call list" where
  "QueryLogConfig lib cl =
     doGet lib cl (SetResult QueryLogConfig_result (EnableTrace (R lib (client.client cl))))
       ''/querylog_info''"

definition StatsConfig :: "resty \<Rightarrow> client \<Rightarrow> Call list \<Rightarrow> outcome \<times> Call list" where
  "StatsConfig lib cl =
     doGet lib cl (SetResult StatsConfig_result (EnableTrace (R lib (client.client cl))))
       ''/stats_info''"

definition AccessList :: "resty \<Rightarrow> client \<Rightarrow> Call list \<Rightarrow> outcome \<times> Call list" where
  "AccessList lib cl =
     doGet lib cl (SetResult AccessList_result (EnableTrace (R lib (client.client cl))))
       ''/access/list''"

definition DNSConfig :: "resty \<Rightarrow> client \<Rightarrow> Call list \<Rightarrow> outcome \<times> Call list" where
  "DNSConfig lib cl =
     doGet lib cl (SetResult DNSConfig_result (EnableTrace (R lib (client.client cl))))
       ''/dns_info''"

definition DHCPStatus :: "resty \<Rightarrow> client \<Rightarrow> Call list \<Rightarrow> outcome \<times> Call list" where
  "DHCPStatus lib cl =
     doGet lib cl (SetResult DhcpStatus_result (EnableTrace (R lib (client.client cl))))
       ''/dhcp/status''"

subsection \<open>Mutations with one call\<close>

definition post_body :: "resty \<Rightarrow> client \<Rightarrow> body \<Rightarrow> Request" where
  "post_body lib cl b = SetBody b (EnableTrace (R lib (client.client cl)))"

definition toggleBool :: "resty \<Rightarrow> client \<Rightarrow> string \<Rightarrow> bool \<Rightarrow> Call list \<Rightarrow> outcome \<times> Call list" where
  "toggleBool lib cl mode enable =
     (let target = (if enable then ''enable'' else ''disable'')
      in doPost lib cl (EnableTrace (R lib (client.client cl))) (''/'' @ mode @ ''/'' @ target))"

definition ToggleSafeBrowsing :: "resty \<Rightarrow> client \<Rightarrow> bool \<Rightarrow> Call list \<Rightarrow> outcome \<times> Call list" where
  "ToggleSafeBrowsing lib cl enable = toggleBool lib cl ''safebrowsing'' enable"

definition ToggleParental :: "resty \<Rightarrow> client \<Rightarrow> bool \<Rightarrow> Call list \<Rightarrow> outcome \<times> Call list" where
  "ToggleParental lib cl enable = toggleBool lib cl ''parental'' enable"

definition ToggleSafeSearch :: "resty \<Rightarrow> client \<Rightarrow> bool \<Rightarrow> Call list \<Rightarrow> outcome \<times> Call list" where
  "ToggleSafeSearch lib cl enable = toggleBool lib cl ''safesearch'' enable"

definition RefreshFilters :: "resty \<Rightarrow> client \<Rightarrow> bool \<Rightarrow> Call list \<Rightarrow> outcome \<times> Call list" where
  "RefreshFilters lib cl whitelist =
     doPost lib cl (post_body lib cl (RefreshFilter_body whitelist)) ''/filtering/refresh''"

definition ToggleProtection :: "resty \<Rightarrow> client \<Rightarrow> bool \<Rightarrow> Call list \<Rightarrow> outcome \<times> Call list" where
  "ToggleProtection lib cl enable =
     doPost lib cl (post_body lib cl (Protection_body enable)) ''/dns_config''"

definition SetCustomRules :: "resty \<Rightarrow> client \<Rightarrow> string list \<Rightarrow> Call list \<Rightarrow> outcome \<times> Call list" where
  "SetCustomRules lib cl rules =
     doPost lib cl (post_body lib cl (UserRules_body rules)) ''/filtering/set_rules''"

definition ToggleFiltering :: "resty \<Rightarrow> client \<Rightarrow> bool \<Rightarrow> float64 \<Rightarrow> Call list \<Rightarrow> outcome \<times> Call list" where
  "ToggleFiltering lib cl enabled interval =
     doPost lib cl (post_body lib cl (FilteringConfig_body enabled interval)) ''/filtering/config''"

definition SetBlockedServices :: "resty \<Rightarrow> client \<Rightarrow> string list \<Rightarrow> Call list \<Rightarrow> outcome \<times> Call list" where
  "SetBlockedServices lib cl services =
     doPost lib cl (post_body lib cl (BlockedServicesArray_body services)) ''/blocked_services/set''"

definition SetQueryLogConfig ::
    "resty \<Rightarrow> client \<Rightarrow> bool \<Rightarrow> QueryLogConfigInterval \<Rightarrow> bool \<Rightarrow> Call list \<Rightarrow> outcome \<times> Call list" where
  "SetQueryLogConfig lib cl enabled interval anonymizeClientIP =
     doPost lib cl (post_body lib cl (QueryLogConfig_body enabled interval anonymizeClientIP))
       ''/querylog_config''"

definition SetStatsConfig :: "resty \<Rightarrow> client \<Rightarrow> StatsConfigInterval \<Rightarrow> Call list \<Rightarrow> outcome \<times> Call list" where
  "SetStatsConfig lib cl i =
     doPost lib cl (post_body lib cl (StatsConfig_body i)) ''/stats_config''"

definition SetAccessList :: "resty \<Rightarrow> client \<Rightarrow> AccessList option \<Rightarrow> Call list \<Rightarrow> outcome \<times> Call list" where
  "SetAccessList lib cl list = doPost lib cl (post_body lib cl (AccessList_body list)) ''/access/set''"

definition SetDNSConfig :: "resty \<Rightarrow> client \<Rightarrow> DNSConfig option \<Rightarrow> Call list \<Rightarrow> outcome \<times> Call list" where
  "SetDNSConfig lib cl config = doPost lib cl (post_body lib cl (DNSConfig_body config)) ''/dns_config''"

definition SetDHCPConfig :: "resty \<Rightarrow> client \<Rightarrow> DhcpConfig option \<Rightarrow> Call list \<Rightarrow> outcome \<times> Call list" where
  "SetDHCPConfig lib cl config =
     doPost lib cl (post_body lib cl (DhcpConfig_body config)) ''/dhcp/set_config''"

subsection \<open>\<open>Setup\<close>\<close>

text \<open>
  The configuration starts with the two addresses and empty credentials (Go's zero
  strings); the client's credentials are copied in when it has some. The request's own
  \<open>UserInfo\<close> is then set to nil.
\<close>

definition Setup_cfg :: "client \<Rightarrow> InitialConfiguration" where
  "Setup_cfg cl =
     (let cfg = \<lparr>Web = \<lparr>AddressInfo.Ip = ''0.0.0.0'', Port = 3000\<rparr>,
                 Dns = \<lparr>AddressInfo.Ip = ''0.0.0.0'', Port = 53\<rparr>,
                 InitialConfiguration.Username = [], InitialConfiguration.Password = []\<rparr>
      in case resty_Client.UserInfo (client.client cl) of
           Some u \<Rightarrow> cfg\<lparr>InitialConfiguration.Username := User.Username u,
                          InitialConfiguration.Password := User.Password u\<rparr>
         | None \<Rightarrow> cfg)"

definition Setup :: "resty \<Rightarrow> client \<Rightarrow> Call list \<Rightarrow> outcome \<times> Call list" where
  "Setup lib cl =
     (let req = post_body lib cl (InitialConfiguration_body (Setup_cfg cl));
          req = req\<lparr>Request.UserInfo := None\<rparr>
      in doPost lib cl req ''/install/configure'')"

subsection \<open>Batch mutations\<close>

text \<open>
  The nine batch methods are the same loop: for each item in order, build the body, post
  it to the method's path, and return the error of the first call that fails; nil after
  the last item. \<open>post_each\<close> is that loop over the bodies; a panic ends it as well.
\<close>

fun post_each :: "resty \<Rightarrow> client \<Rightarrow> string \<Rightarrow> body list \<Rightarrow> Call list \<Rightarrow> outcome \<times> Call list" where
  "post_each lib cl url [] calls = (Returns None, calls)"
| "post_each lib cl url (b # bs) calls =
     (case doPost lib cl (post_body lib cl b) url calls of
        (Returns None, calls') \<Rightarrow> post_each lib cl url bs calls'
      | (Returns (Some err), calls') \<Rightarrow> (Returns (Some err), calls')
      | (Panics, calls') \<Rightarrow> (Panics, calls'))"

definition AddRewriteEntries :: "resty \<Rightarrow> client \<Rightarrow> RewriteEntry list \<Rightarrow> Call list \<Rightarrow> outcome \<times> Call list" where
  "AddRewriteEntries lib cl entries =
     post_each lib cl ''/rewrite/add'' (map RewriteEntry_body entries)"

definition DeleteRewriteEntries :: "resty \<Rightarrow> client \<Rightarrow> RewriteEntry list \<Rightarrow> Call list \<Rightarrow> outcome \<times> Call list" where
  "DeleteRewriteEntries lib cl entries =
     post_each lib cl ''/rewrite/delete'' (map RewriteEntry_body entries)"

definition AddFilters :: "resty \<Rightarrow> client \<Rightarrow> bool \<Rightarrow> Filter list \<Rightarrow> Call list \<Rightarrow> outcome \<times> Call list" where
  "AddFilters lib cl whitelist filters =
     post_each lib cl ''/filtering/add_url''
       (map (\<lambda>f. Filter_body \<lparr>ID = 0, Filter.Name = Filter.Name f, Filter.URL = Filter.URL f,
                                Filter.Whitelist = whitelist, Enabled = False\<rparr>) filters)"

definition DeleteFilters :: "resty \<Rightarrow> client \<Rightarrow> bool \<Rightarrow> Filter list \<Rightarrow> Call list \<Rightarrow> outcome \<times> Call list" where
  "DeleteFilters lib cl whitelist filters =
     post_each lib cl ''/filtering/remove_url''
       (map (\<lambda>f. Filter_body \<lparr>ID = 0, Filter.Name = [], Filter.URL = Filter.URL f,
                                Filter.Whitelist = whitelist, Enabled = False\<rparr>) filters)"

definition UpdateFilters :: "resty \<Rightarrow> client \<Rightarrow> bool \<Rightarrow> Filter list \<Rightarrow> Call list \<Rightarrow> outcome \<times> Call list" where
  "UpdateFilters lib cl whitelist filters =
     post_each lib cl ''/filtering/set_url''
       (map (\<lambda>f. FilterUpdate_body
                   \<lparr>FilterUpdate.Whitelist = whitelist, FilterUpdate.URL = Filter.URL f,
                    FilterUpdate.Data =
                      \<lparr>ID = Filter.ID f, Filter.Name = Filter.Name f, Filter.URL = Filter.URL f,
                       Filter.Whitelist = whitelist, Enabled = Filter.Enabled f\<rparr>\<rparr>) filters)"

definition AddClients :: "resty \<Rightarrow> client \<Rightarrow> Client list \<Rightarrow> Call list \<Rightarrow> outcome \<times> Call list" where
  "AddClients lib cl clients = post_each lib cl ''/clients/add'' (map Client_body clients)"

definition UpdateClients :: "resty \<Rightarrow> client \<Rightarrow> Client list \<Rightarrow> Call list \<Rightarrow> outcome \<times> Call list" where
  "UpdateClients lib cl clients =
     post_each lib cl ''/clients/update''
       (map (\<lambda>c. ClientUpdate_body \<lparr>ClientUpdate.Name = Client.Name c, ClientUpdate.Data = c\<rparr>)
          clients)"

definition DeleteClients :: "resty \<Rightarrow> client \<Rightarrow> string list \<Rightarrow> Call list \<Rightarrow> outcome \<times> Call list" where
  "DeleteClients lib cl clients =
     post_each lib cl ''/clients/delete'' (map ClientDelete_body clients)"

definition AddDHCPStaticLeases :: "resty \<Rightarrow> client \<Rightarrow> DhcpStaticLease list \<Rightarrow> Call list \<Rightarrow> outcome \<times> Call list" where
  "AddDHCPStaticLeases lib cl leases =
     post_each lib cl ''/dhcp/add_static_lease'' (map DhcpStaticLease_body leases)"

definition DeleteDHCPStaticLeases :: "resty \<Rightarrow> client \<Rightarrow> DhcpStaticLease list \<Rightarrow> Call list \<Rightarrow> outcome \<times> Call list" where
  "DeleteDHCPStaticLeases lib cl leases =
     post_each lib cl ''/dhcp/remove_static_lease'' (map DhcpStaticLease_body leases)"

subsection \<open>The interface as data\<close>

text \<open>
  The methods of the \<open>Client\<close> interface that issue calls, each with its arguments: the
  reads and the mutations. \<open>read\<close> and \<open>mutate\<close> run one of them.
\<close>

datatype read_op =
    Status_op
  | RewriteList_op
  | Filtering_op
  | SafeBrowsing_op
  | Parental_op
  | SafeSearch_op
  | BlockedServices_op
  | Clients_op
  | QueryLogConfig_op
  | StatsConfig_op
  | AccessList_op
  | DNSConfig_op
  | DHCPStatus_op

fun read :: "resty \<Rightarrow> client \<Rightarrow> read_op \<Rightarrow> Call list \<Rightarrow> outcome \<times> Call list" where
  "read lib cl Status_op = Status lib cl"
| "read lib cl RewriteList_op = RewriteList lib cl"
| "read lib cl Filtering_op = Filtering lib cl"
| "read lib cl SafeBrowsing_op = SafeBrowsing lib cl"
| "read lib cl Parental_op = Parental lib cl"
| "read lib cl SafeSearch_op = SafeSearch lib cl"
| "read lib cl BlockedServices_op = BlockedServices lib cl"
| "read lib cl Clients_op = Clients lib cl"
| "read lib cl QueryLogConfig_op = QueryLogConfig lib cl"
| "read lib cl StatsConfig_op = StatsConfig lib cl"
| "read lib cl AccessList_op = AccessList lib cl"
| "read lib cl DNSConfig_op = DNSConfig lib cl"
| "read lib cl DHCPStatus_op = DHCPStatus lib cl"

text \<open>The request and the path of the one call a read issues.\<close>

fun read_target :: "read_op \<Rightarrow> result_target" where
  "read_target Status_op = Status_result"
| "read_target RewriteList_op = RewriteEntries_result"
| "read_target Filtering_op = FilteringStatus_result"
| "read_target SafeBrowsing_op = EnableConfig_result"
| "read_target Parental_op = EnableConfig_result"
| "read_target SafeSearch_op = EnableConfig_result"
| "read_target BlockedServices_op = BlockedServicesArray_result"
| "read_target Clients_op = Clients_result"
| "read_target QueryLogConfig_op = QueryLogConfig_result"
| "read_target StatsConfig_op = StatsConfig_result"
| "read_target AccessList_op = AccessList_result"
| "read_target DNSConfig_op = DNSConfig_result"
| "read_target DHCPStatus_op = DhcpStatus_result"

fun read_url :: "read_op \<Rightarrow> string" where
  "read_url Status_op = ''status''"
| "read_url RewriteList_op = ''/rewrite/list''"
| "read_url Filtering_op = ''/filtering/status''"
| "read_url SafeBrowsing_op = ''/safebrowsing/status''"
| "read_url Parental_op = ''/parental/status''"
| "read_url SafeSearch_op = ''/safesearch/status''"
| "read_url BlockedServices_op = ''/blocked_services/list''"
| "read_url Clients_op = ''/clients''"
| "read_url QueryLogConfig_op = ''/querylog_info''"
| "read_url StatsConfig_op = ''/stats_info''"
| "read_url AccessList_op = ''/access/list''"
| "read_url DNSConfig_op = ''/dns_info''"
| "read_url DHCPStatus_op = ''/dhcp/status''"

definition read_call :: "resty \<Rightarrow> client \<Rightarrow> read_op \<Rightarrow> Call" where
  "read_call lib cl op =
     mk_call GET cl (SetResult (read_target op) (EnableTrace (R lib (client.client cl))))
       (read_url op)"

datatype mutation_op =
    ToggleProtection_op bool
  | AddRewriteEntries_op "RewriteEntry list"
  | DeleteRewriteEntries_op "RewriteEntry list"
  | ToggleFiltering_op bool float64
  | AddFilters_op bool "Filter list"
  | DeleteFilters_op bool "Filter list"
  | UpdateFilters_op bool "Filter list"
  | RefreshFilters_op bool
  | SetCustomRules_op "string list"
  | ToggleSafeBrowsing_op bool
  | ToggleParental_op bool
  | ToggleSafeSearch_op bool
  | SetBlockedServices_op "string list"
  | AddClients_op "Client list"
  | UpdateClients_op "Client list"
  | DeleteClients_op "string list"
  | SetQueryLogConfig_op bool QueryLogConfigInterval bool
  | SetStatsConfig_op StatsConfigInterval
  | Setup_op
  | SetAccessList_op "AccessList option"
  | SetDNSConfig_op "DNSConfig option"
  | SetDHCPConfig_op "DhcpConfig option"
  | AddDHCPStaticLeases_op "DhcpStaticLease list"
  | DeleteDHCPStaticLeases_op "DhcpStaticLease list"

fun mutate :: "resty \<Rightarrow> client \<Rightarrow> mutation_op \<Rightarrow> Call list \<Rightarrow> outcome \<times> Call list" where
  "mutate lib cl (ToggleProtection_op enable) = ToggleProtection lib cl enable"
| "mutate lib cl (AddRewriteEntries_op e) = AddRewriteEntries lib cl e"
| "mutate lib cl (DeleteRewriteEntries_op e) = DeleteRewriteEntries lib cl e"
| "mutate lib cl (ToggleFiltering_op enabled interval) = ToggleFiltering lib cl enabled interval"
| "mutate lib cl (AddFilters_op whitelist e) = AddFilters lib cl whitelist e"
| "mutate lib cl (DeleteFilters_op whitelist e) = DeleteFilters lib cl whitelist e"
| "mutate lib cl (UpdateFilters_op whitelist e) = UpdateFilters lib cl whitelist e"
| "mutate lib cl (RefreshFilters_op whitelist) = RefreshFilters lib cl whitelist"
| "mutate lib cl (SetCustomRules_op rules) = SetCustomRules lib cl rules"
| "mutate lib cl (ToggleSafeBrowsing_op enable) = ToggleSafeBrowsing lib cl enable"
| "mutate lib cl (ToggleParental_op enable) = ToggleParental lib cl enable"
| "mutate lib cl (ToggleSafeSearch_op enable) = ToggleSafeSearch lib cl enable"
| "mutate lib cl (SetBlockedServices_op services) = SetBlockedServices lib cl services"
| "mutate lib cl (AddClients_op clients) = AddClients lib cl clients"
| "mutate lib cl (UpdateClients_op clients) = UpdateClients lib cl clients"
| "mutate lib cl (DeleteClients_op clients) = DeleteClients lib cl clients"
| "mutate lib cl (SetQueryLogConfig_op enabled interval anonymizeClientIP) =
     SetQueryLogConfig lib cl enabled interval anonymizeClientIP"
| "mutate lib cl (SetStatsConfig_op i) = SetStatsConfig lib cl i"
| "mutate lib cl Setup_op = Setup lib cl"
| "mutate lib cl (SetAccessList_op list) = SetAccessList lib cl list"
| "mutate lib cl (SetDNSConfig_op config) = SetDNSConfig lib cl config"
| "mutate lib cl (SetDHCPConfig_op config) = SetDHCPConfig lib cl config"
| "mutate lib cl (AddDHCPStaticLeases_op leases) = AddDHCPStaticLeases lib cl leases"
| "mutate lib cl (DeleteDHCPStaticLeases_op leases) = DeleteDHCPStaticLeases lib cl leases"

subsection \<open>\<open>New\<close>\<close>

text \<open>
  \<open>net/url.URL\<close> with the fields \<open>New\<close> touches, and the standard-library functions
  \<open>New\<close> calls, as parameters: \<open>url.Parse\<close> and \<open>strconv.Atoi\<close> return a value or an
  error (its message), \<open>URL.String\<close> and \<open>path.Clean\<close> a string. The process environment
  is a map from names to values (\<open>os.LookupEnv\<close>).
\<close>

record url_URL =
  Scheme :: string
  Host :: string
  Path :: string

record stdlib =
  url_Parse :: "string \<Rightarrow> string + url_URL"
  url_String :: "url_URL \<Rightarrow> string"
  path_Clean :: "string \<Rightarrow> string"
  strconv_Atoi :: "string \<Rightarrow> string + int"

definition envRedirectPolicyNoOfRedirects :: string where
  "envRedirectPolicyNoOfRedirects = ''REDIRECT_POLICY_NO_OF_REDIRECTS''"

text \<open>The URL that \<open>New\<close> parses: the instance's URL and \<open>control\<close> or the API-path override.\<close>

definition apiURL :: "AdGuardInstance \<Rightarrow> string" where
  "apiURL config =
     (if AdGuardInstance.APIPath config = []
      then AdGuardInstance.URL config @ ''/control''
      else AdGuardInstance.URL config @ ''/'' @ AdGuardInstance.APIPath config)"

text \<open>
  Go's \<open>(Client, error)\<close>: \<open>Inl\<close> is the error, returned with a nil client; \<open>Inr\<close> is the
  client, returned with a nil error.
\<close>

definition New :: "stdlib \<Rightarrow> (string \<rightharpoonup> string) \<Rightarrow> AdGuardInstance \<Rightarrow> error + client" where
  "New std env config =
     (case url_Parse std (apiURL config) of
        Inl err \<Rightarrow> Inl (ForeignError err)
      | Inr u0 \<Rightarrow>
          (let u = u0\<lparr>url_URL.Path := path_Clean std (url_URL.Path u0)\<rparr>;
               cl = resty_New\<lparr>BaseURL := url_String std u, DisableWarn := True\<rparr>;
               cl = (if AdGuardInstance.InsecureSkipVerify config
                     then cl\<lparr>TLSInsecureSkipVerify := True\<rparr> else cl);
               cl = (if AdGuardInstance.Username config \<noteq> [] \<and> AdGuardInstance.Password config \<noteq> []
                     then cl\<lparr>resty_Client.UserInfo :=
                               Some \<lparr>User.Username = AdGuardInstance.Username config,
                                     User.Password = AdGuardInstance.Password config\<rparr>\<rparr>
                     else cl)
           in case env envRedirectPolicyNoOfRedirects of
                Some v \<Rightarrow>
                  (case strconv_Atoi std v of
                     Inl err \<Rightarrow>
                       Inl (ErrorString
                              (''error parsing env var '' @ [CHR 0x22] @ envRedirectPolicyNoOfRedirects
                                 @ [CHR 0x22] @ '' value must be an integer''))
                   | Inr nbr \<Rightarrow>
                       Inr \<lparr>client = cl\<lparr>RedirectPolicy := Some (FlexibleRedirectPolicy nbr)\<rparr>,
                            host = url_URL.Host u\<rparr>)
              | None \<Rightarrow>
                  Inr \<lparr>client = cl\<lparr>RedirectPolicy := Some NoRedirectPolicy\<rparr>,
                       host = url_URL.Host u\<rparr>))"

definition Host :: "client \<Rightarrow> string" where
  "Host cl = client.host cl"

subsection \<open>Package \<open>pointer\<close>\<close>

text \<open>A Go pointer to a value is an \<open>option\<close>: nil is \<open>None\<close>, \<open>&v\<close> is \<open>Some v\<close>.\<close>

definition ToB :: "bool \<Rightarrow> bool option" where
  "ToB b = Some b"

fun FromB :: "bool option \<Rightarrow> bool" where
  "FromB None = False"
| "FromB (Some b) = b"

fun FromQueryLogConfigInterval :: "QueryLogConfigInterval option \<Rightarrow> QueryLogConfigInterval" where
  "FromQueryLogConfigInterval None = 0"
| "FromQueryLogConfigInterval (Some i) = i"

section \<open>Properties\<close>

subsection \<open>Vocabulary\<close>

text \<open>
  The call a batch method issues for one body, and three readings of the library's
  reply \<open>(resp, err)\<close>: \<open>accepted\<close>, the request completed with status 200 and no
  error; \<open>all_accepted\<close>, each call of a list is accepted when issued after the ones
  before it; \<open>redirected_to_install\<close>, the library reports an error together with a
  response of status 302 whose \<open>Location\<close> is \<open>/install.html\<close>.
\<close>

definition post_call :: "resty \<Rightarrow> client \<Rightarrow> string \<Rightarrow> body \<Rightarrow> Call" where
  "post_call lib cl url b = mk_call POST cl (post_body lib cl b) url"

definition accepted :: "resty \<Rightarrow> Call list \<Rightarrow> Call \<Rightarrow> bool" where
  "accepted lib calls c =
     (case Execute lib calls c of
        (Some r, None) \<Rightarrow> Response.StatusCode r = 200
      | _ \<Rightarrow> False)"

fun all_accepted :: "resty \<Rightarrow> Call list \<Rightarrow> Call list \<Rightarrow> bool" where
  "all_accepted lib calls [] = True"
| "all_accepted lib calls (c # cs) = (accepted lib calls c \<and> all_accepted lib (calls @ [c]) cs)"

definition redirected_to_install :: "Response option \<times> string option \<Rightarrow> bool" where
  "redirected_to_install reply =
     (case reply of
        (Some r, Some e) \<Rightarrow>
          Response.StatusCode r = 302
            \<and> Header_Get (Response.Header r) ''Location'' = ''/install.html''
      | _ \<Rightarrow> False)"

text \<open>
  The credentials the library puts into the basic-auth header of a call (resty's
  request middleware): those of the request when it has some, else those of the client.
\<close>

definition basic_auth :: "Call \<Rightarrow> User option" where
  "basic_auth c =
     (case Request.UserInfo (call_request c) of
        Some u \<Rightarrow> Some u
      | None \<Rightarrow> resty_Client.UserInfo (call_client c))"

subsection \<open>Example libraries and inputs\<close>

text \<open>
  A library whose fresh request is empty and whose reply to every call is the given
  one; a library that answers 500 to the calls carrying one body and 200 to all others;
  a client with credentials; and the reply of an appliance that was never set up, as a
  client that follows no redirect sees it.
\<close>

definition fresh_request :: Request where
  "fresh_request = \<lparr>Request.Body = NoBody, Result = None, Trace = False, Request.UserInfo = None\<rparr>"

definition response :: "int \<Rightarrow> string \<Rightarrow> string \<Rightarrow> Response" where
  "response code line content =
     \<lparr>StatusCode = code, Status = line, Header = Map.empty, Response.Body = content\<rparr>"

definition answering :: "Response option \<times> string option \<Rightarrow> resty" where
  "answering reply = \<lparr>R = (\<lambda>c. fresh_request), Execute = (\<lambda>calls c. reply)\<rparr>"

definition rejecting :: "body \<Rightarrow> resty" where
  "rejecting b =
     \<lparr>R = (\<lambda>c. fresh_request),
      Execute = (\<lambda>calls c.
        if Request.Body (call_request c) = b
        then (Some (response 500 ''500 Internal Server Error'' ''rejected''), None)
        else (Some (response 200 ''200 OK'' ''OK''), None))\<rparr>"

definition admin_client :: client where
  "admin_client =
     \<lparr>client =
        \<lparr>BaseURL = ''https://replica.example/control'', DisableWarn = True,
         TLSInsecureSkipVerify = False,
         UserInfo = Some \<lparr>User.Username = ''admin'', User.Password = ''secret''\<rparr>,
         RedirectPolicy = Some NoRedirectPolicy\<rparr>,
      host = ''replica.example''\<rparr>"

definition install_redirect :: "Response option \<times> string option" where
  "install_redirect =
     (Some \<lparr>StatusCode = 302, Status = ''302 Found'',
            Header = [''Location'' \<mapsto> ''/install.html''], Response.Body = []\<rparr>,
      Some ''auto redirect is disabled'')"

text \<open>
  Three rewrite entries; the reply to an accepted call; a redirect to another page; a
  200 response whose body the library could not decode, reported with its error; a
  stand-in for the standard library that knows one host and rejects a URL with a space
  in it; and an instance with credentials, once well-formed and once with such a URL.
\<close>

definition entry_a :: RewriteEntry where
  "entry_a = \<lparr>Domain = ''a.example'', Answer = ''10.0.0.1''\<rparr>"

definition entry_b :: RewriteEntry where
  "entry_b = \<lparr>Domain = ''b.example'', Answer = ''10.0.0.2''\<rparr>"

definition entry_c :: RewriteEntry where
  "entry_c = \<lparr>Domain = ''c.example'', Answer = ''10.0.0.3''\<rparr>"

definition ok_reply :: "Response option \<times> string option" where
  "ok_reply = (Some (response 200 ''200 OK'' ''OK''), None)"

definition login_redirect :: "Response option \<times> string option" where
  "login_redirect =
     (Some \<lparr>StatusCode = 302, Status = ''302 Found'',
            Header = [''Location'' \<mapsto> ''/login.html''], Response.Body = []\<rparr>,
      Some ''auto redirect is disabled'')"

definition decode_failure :: "Response option \<times> string option" where
  "decode_failure =
     (Some (response 200 ''200 OK'' ''<html>''),
      Some ''invalid character in response body'')"

definition stub_stdlib :: stdlib where
  "stub_stdlib =
     \<lparr>url_Parse = (\<lambda>s. if CHR '' '' \<in> set s then Inl ''invalid character in host name''
                        else Inr \<lparr>Scheme = ''https'', Host = ''replica.example'', Path = ''/control''\<rparr>),
      url_String = (\<lambda>u. url_URL.Scheme u @ ''://'' @ url_URL.Host u @ url_URL.Path u),
      path_Clean = (\<lambda>p. p),
      strconv_Atoi = (\<lambda>s. Inl ''invalid syntax'')\<rparr>"

definition admin_instance :: AdGuardInstance where
  "admin_instance =
     \<lparr>AdGuardInstance.URL = ''https://replica.example'', APIPath = [],
      AdGuardInstance.Username = ''admin'', AdGuardInstance.Password = ''secret'',
      InsecureSkipVerify = False\<rparr>"

definition bad_instance :: AdGuardInstance where
  "bad_instance =
     \<lparr>AdGuardInstance.URL = ''https://replica example'', APIPath = [],
      AdGuardInstance.Username = ''admin'', AdGuardInstance.Password = ''secret'',
      InsecureSkipVerify = False\<rparr>"

section \<open>Lemmas about \<open>doGet\<close>, \<open>doPost\<close> and the batch loop\<close>

lemma doGet_calls: "snd (doGet lib cl req url calls) = calls @ [mk_call GET cl req url]"
  by (simp add: doGet_def Let_def split: prod.splits)

lemma doPost_calls: "snd (doPost lib cl req url calls) = calls @ [mk_call POST cl req url]"
  by (simp add: doPost_def Let_def split: prod.splits)

lemma doGet_result:
  "fst (doGet lib cl req url calls) =
     (case Execute lib calls (mk_call GET cl req url) of
        (Some r, Some e) \<Rightarrow>
          if Response.StatusCode r = 302
               \<and> Header_Get (Response.Header r) ''Location'' = ''/install.html''
          then Returns (Some ErrSetupNeeded) else Returns (Some (ForeignError e))
      | (Some r, None) \<Rightarrow>
          if Response.StatusCode r \<noteq> 200 then Returns (Some (ErrorString (Response.Status r)))
          else Returns None
      | (None, _) \<Rightarrow> Panics)"
  by (simp add: doGet_def Let_def split: prod.splits option.splits)

lemma doPost_result:
  "fst (doPost lib cl req url calls) =
     (case Execute lib calls (mk_call POST cl req url) of
        (Some r, Some e) \<Rightarrow> Returns (Some (ForeignError e))
      | (Some r, None) \<Rightarrow>
          if Response.StatusCode r \<noteq> 200 then Returns (Some (ErrorString (Response.Status r)))
          else Returns None
      | (None, _) \<Rightarrow> Panics)"
  by (simp add: doPost_def Let_def split: prod.splits option.splits)

lemma read_doGet:
  "read lib cl op calls =
     doGet lib cl (SetResult (read_target op) (EnableTrace (R lib (client.client cl)))) (read_url op) calls"
  by (cases op)
     (simp_all add: Status_def RewriteList_def Filtering_def SafeBrowsing_def Parental_def
        SafeSearch_def toggleStatus_def BlockedServices_def Clients_def QueryLogConfig_def
        StatsConfig_def AccessList_def DNSConfig_def DHCPStatus_def)

lemma doGet_accepted:
  "fst (doGet lib cl req url calls) = Returns None \<longleftrightarrow> accepted lib calls (mk_call GET cl req url)"
  by (simp add: doGet_result accepted_def split: prod.splits option.splits)

lemma doPost_accepted:
  "fst (doPost lib cl req url calls) = Returns None \<longleftrightarrow> accepted lib calls (mk_call POST cl req url)"
  by (simp add: doPost_result accepted_def split: prod.splits option.splits)

lemma post_each_calls_prefix:
  "\<exists>n \<le> length bs. snd (post_each lib cl url bs calls) = calls @ map (post_call lib cl url) (take n bs)"
proof (induction bs arbitrary: calls)
  case Nil
  then show ?case by simp
next
  case (Cons b bs)
  obtain out calls' where d: "doPost lib cl (post_body lib cl b) url calls = (out, calls')"
    by (cases "doPost lib cl (post_body lib cl b) url calls")
  have c': "calls' = calls @ [post_call lib cl url b]"
    using doPost_calls [of lib cl "post_body lib cl b" url calls] d by (simp add: post_call_def)
  show ?case
  proof (cases "out = Returns None")
    case True
    from Cons.IH [of calls'] obtain n where n: "n \<le> length bs"
      "snd (post_each lib cl url bs calls') = calls' @ map (post_call lib cl url) (take n bs)"
      by blast
    have "snd (post_each lib cl url (b # bs) calls)
            = calls @ map (post_call lib cl url) (take (Suc n) (b # bs))"
      using d True n c' by simp
    moreover have "Suc n \<le> length (b # bs)" using n by simp
    ultimately show ?thesis by blast
  next
    case False
    then have "snd (post_each lib cl url (b # bs) calls)
            = calls @ map (post_call lib cl url) (take (Suc 0) (b # bs))"
      using d c' by (cases out) (auto split: option.splits)
    then show ?thesis by (intro exI [of _ "Suc 0"]) simp
  qed
qed

lemma post_each_all_accepted:
  "all_accepted lib calls (map (post_call lib cl url) bs)
     \<Longrightarrow> post_each lib cl url bs calls = (Returns None, calls @ map (post_call lib cl url) bs)"
proof (induction bs arbitrary: calls)
  case Nil
  then show ?case by simp
next
  case (Cons b bs)
  from Cons.prems have a: "accepted lib calls (post_call lib cl url b)"
    and rest: "all_accepted lib (calls @ [post_call lib cl url b]) (map (post_call lib cl url) bs)"
    by simp_all
  from a have "fst (doPost lib cl (post_body lib cl b) url calls) = Returns None"
    by (simp add: doPost_accepted post_call_def)
  then have d: "doPost lib cl (post_body lib cl b) url calls
                  = (Returns None, calls @ [post_call lib cl url b])"
    using doPost_calls [of lib cl "post_body lib cl b" url calls]
    by (simp add: post_call_def prod_eq_iff)
  show ?case using d Cons.IH [OF rest] by simp
qed

lemma post_each_success_iff:
  "fst (post_each lib cl url bs calls) = Returns None
     \<longleftrightarrow> all_accepted lib calls (map (post_call lib cl url) bs)"
proof (induction bs arbitrary: calls)
  case Nil
  then show ?case by simp
next
  case (Cons b bs)
  obtain out calls' where d: "doPost lib cl (post_body lib cl b) url calls = (out, calls')"
    by (cases "doPost lib cl (post_body lib cl b) url calls")
  have c': "calls' = calls @ [post_call lib cl url b]"
    using doPost_calls [of lib cl "post_body lib cl b" url calls] d by (simp add: post_call_def)
  have o: "out = Returns None \<longleftrightarrow> accepted lib calls (post_call lib cl url b)"
    using doPost_accepted [of lib cl "post_body lib cl b" url calls] d
    by (simp add: post_call_def)
  show ?case
  proof (cases "out = Returns None")
    case True
    then show ?thesis using d c' o Cons.IH [of calls'] by simp
  next
    case False
    then show ?thesis using d o by (cases out) (auto split: option.splits)
  qed
qed

lemma post_each_stops:
  assumes "all_accepted lib calls (map (post_call lib cl url) bs)"
    and "fst (doPost lib cl (post_body lib cl b) url (calls @ map (post_call lib cl url) bs))
           = Returns (Some err)"
  shows "post_each lib cl url (bs @ b # rest) calls
           = (Returns (Some err), calls @ map (post_call lib cl url) (bs @ [b]))"
  using assms
proof (induction bs arbitrary: calls)
  case Nil
  then show ?case
    using doPost_calls [of lib cl "post_body lib cl b" url calls]
    by (cases "doPost lib cl (post_body lib cl b) url calls") (simp add: post_call_def)
next
  case (Cons a bs)
  from Cons.prems(1) have a: "accepted lib calls (post_call lib cl url a)"
    and rest: "all_accepted lib (calls @ [post_call lib cl url a]) (map (post_call lib cl url) bs)"
    by simp_all
  from a have "fst (doPost lib cl (post_body lib cl a) url calls) = Returns None"
    by (simp add: doPost_accepted post_call_def)
  then have d: "doPost lib cl (post_body lib cl a) url calls
                  = (Returns None, calls @ [post_call lib cl url a])"
    using doPost_calls [of lib cl "post_body lib cl a" url calls]
    by (simp add: post_call_def prod_eq_iff)
  from Cons.prems(2) have f: "fst (doPost lib cl (post_body lib cl b) url
        ((calls @ [post_call lib cl url a]) @ map (post_call lib cl url) bs)) = Returns (Some err)"
    by simp
  show ?case using d Cons.IH [OF rest f] by simp
qed

lemma doPost_not_setup: "fst (doPost lib cl req url calls) \<noteq> Returns (Some ErrSetupNeeded)"
  by (simp add: doPost_result split: prod.splits option.splits)

lemma post_each_not_setup: "fst (post_each lib cl url bs calls) \<noteq> Returns (Some ErrSetupNeeded)"
proof (induction bs arbitrary: calls)
  case Nil
  then show ?case by simp
next
  case (Cons b bs)
  obtain out calls' where d: "doPost lib cl (post_body lib cl b) url calls = (out, calls')"
    by (cases "doPost lib cl (post_body lib cl b) url calls")
  have "out \<noteq> Returns (Some ErrSetupNeeded)"
    using doPost_not_setup [of lib cl "post_body lib cl b" url calls] d by simp
  then show ?case using d Cons.IH [of calls'] by (cases out) (auto split: option.splits)
qed

lemma mutate_not_setup: "fst (mutate lib cl m calls) \<noteq> Returns (Some ErrSetupNeeded)"
  by (cases m)
     (simp_all add: ToggleProtection_def AddRewriteEntries_def DeleteRewriteEntries_def
        ToggleFiltering_def AddFilters_def DeleteFilters_def UpdateFilters_def RefreshFilters_def
        SetCustomRules_def ToggleSafeBrowsing_def ToggleParental_def ToggleSafeSearch_def
        toggleBool_def SetBlockedServices_def AddClients_def UpdateClients_def DeleteClients_def
        SetQueryLogConfig_def SetStatsConfig_def Setup_def SetAccessList_def SetDNSConfig_def
        SetDHCPConfig_def AddDHCPStaticLeases_def DeleteDHCPStaticLeases_def
        doPost_not_setup post_each_not_setup)

lemma New_UserInfo:
  "New std env inst = Inr cl \<Longrightarrow>
     resty_Client.UserInfo (client.client cl) =
       (if AdGuardInstance.Username inst \<noteq> [] \<and> AdGuardInstance.Password inst \<noteq> []
        then Some \<lparr>User.Username = AdGuardInstance.Username inst,
                   User.Password = AdGuardInstance.Password inst\<rparr>
        else None)"
  by (auto simp: New_def Let_def resty_New_def split: sum.splits option.splits if_splits)

lemma post_each_calls_extend:
  "\<exists>cs. snd (post_each lib cl url bs calls) = calls @ cs"
  using post_each_calls_prefix [of bs lib cl url calls] by blast

lemma doPost_accepts_issued:
  "fst (doPost lib cl req url calls) = Returns None
     \<longleftrightarrow> all_accepted lib calls (drop (length calls) (snd (doPost lib cl req url calls)))"
  by (simp add: doPost_calls doPost_accepted)

lemma post_each_accepts_issued:
  "fst (post_each lib cl url bs calls) = Returns None
     \<longleftrightarrow> all_accepted lib calls (drop (length calls) (snd (post_each lib cl url bs calls)))"
proof (induction bs arbitrary: calls)
  case Nil
  then show ?case by simp
next
  case (Cons b bs)
  obtain out calls' where d: "doPost lib cl (post_body lib cl b) url calls = (out, calls')"
    by (cases "doPost lib cl (post_body lib cl b) url calls")
  have c': "calls' = calls @ [post_call lib cl url b]"
    using doPost_calls [of lib cl "post_body lib cl b" url calls] d by (simp add: post_call_def)
  have o: "out = Returns None \<longleftrightarrow> accepted lib calls (post_call lib cl url b)"
    using doPost_accepted [of lib cl "post_body lib cl b" url calls] d
    by (simp add: post_call_def)
  show ?case
  proof (cases "out = Returns None")
    case True
    obtain cs where cs: "snd (post_each lib cl url bs calls') = calls' @ cs"
      using post_each_calls_extend by blast
    have "fst (post_each lib cl url (b # bs) calls) = fst (post_each lib cl url bs calls')"
      and s: "snd (post_each lib cl url (b # bs) calls) = snd (post_each lib cl url bs calls')"
      using d True by simp_all
    moreover have "drop (length calls) (snd (post_each lib cl url bs calls'))
                     = post_call lib cl url b # cs"
      using cs c' by simp
    moreover have "drop (length calls') (snd (post_each lib cl url bs calls')) = cs"
      using cs by simp
    ultimately show ?thesis
      using Cons.IH [of calls'] o True c' by simp
  next
    case False
    then have "post_each lib cl url (b # bs) calls = (out, calls')"
      using d by (cases out) (auto split: option.splits)
    then show ?thesis using False o c' by simp
  qed
qed

lemma mutate_accepts_issued:
  "fst (mutate lib cl m calls) = Returns None
     \<longleftrightarrow> all_accepted lib calls (drop (length calls) (snd (mutate lib cl m calls)))"
  by (cases m)
     (simp_all only: mutate.simps ToggleProtection_def AddRewriteEntries_def DeleteRewriteEntries_def
        ToggleFiltering_def AddFilters_def DeleteFilters_def UpdateFilters_def RefreshFilters_def
        SetCustomRules_def ToggleSafeBrowsing_def ToggleParental_def ToggleSafeSearch_def
        toggleBool_def SetBlockedServices_def AddClients_def UpdateClients_def DeleteClients_def
        SetQueryLogConfig_def SetStatsConfig_def Setup_def SetAccessList_def SetDNSConfig_def
        SetDHCPConfig_def AddDHCPStaticLeases_def DeleteDHCPStaticLeases_def Let_def
        doPost_accepts_issued post_each_accepts_issued)

lemma post_each_error_is_last:
  "fst (post_each lib cl url bs calls) = Returns (Some err) \<Longrightarrow>
     fst (doPost lib cl (call_request (last (snd (post_each lib cl url bs calls))))
            (call_url (last (snd (post_each lib cl url bs calls))))
            (butlast (snd (post_each lib cl url bs calls))))
       = Returns (Some err)"
proof (induction bs arbitrary: calls)
  case Nil
  then show ?case by simp
next
  case (Cons b bs)
  obtain out calls' where d: "doPost lib cl (post_body lib cl b) url calls = (out, calls')"
    by (cases "doPost lib cl (post_body lib cl b) url calls")
  have c': "calls' = calls @ [mk_call POST cl (post_body lib cl b) url]"
    using doPost_calls [of lib cl "post_body lib cl b" url calls] d by simp
  show ?case
  proof (cases "out = Returns None")
    case True
    then show ?thesis using Cons.IH [of calls'] Cons.prems d by simp
  next
    case False
    then have p: "post_each lib cl url (b # bs) calls = (out, calls')"
      using d by (cases out) (auto split: option.splits)
    then have "out = Returns (Some err)" using Cons.prems by simp
    then show ?thesis using p c' d by (simp add: mk_call_def)
  qed
qed

lemma doPost_error_is_last:
  "fst (doPost lib cl req url calls) = Returns (Some err) \<Longrightarrow>
     fst (doPost lib cl (call_request (last (snd (doPost lib cl req url calls))))
            (call_url (last (snd (doPost lib cl req url calls))))
            (butlast (snd (doPost lib cl req url calls))))
       = Returns (Some err)"
  by (simp add: doPost_calls mk_call_def)

lemma mutate_error_is_last:
  "fst (mutate lib cl m calls) = Returns (Some err) \<Longrightarrow>
     fst (doPost lib cl (call_request (last (snd (mutate lib cl m calls))))
            (call_url (last (snd (mutate lib cl m calls))))
            (butlast (snd (mutate lib cl m calls))))
       = Returns (Some err)"
  by (cases m)
     (simp_all only: mutate.simps ToggleProtection_def AddRewriteEntries_def DeleteRewriteEntries_def
        ToggleFiltering_def AddFilters_def DeleteFilters_def UpdateFilters_def RefreshFilters_def
        SetCustomRules_def ToggleSafeBrowsing_def ToggleParental_def ToggleSafeSearch_def
        toggleBool_def SetBlockedServices_def AddClients_def UpdateClients_def DeleteClients_def
        SetQueryLogConfig_def SetStatsConfig_def Setup_def SetAccessList_def SetDNSConfig_def
        SetDHCPConfig_def AddDHCPStaticLeases_def DeleteDHCPStaticLeases_def Let_def
        doPost_error_is_last post_each_error_is_last)

lemma Setup_basic_auth:
  "basic_auth (last (snd (Setup lib cl calls))) = resty_Client.UserInfo (client.client cl)"
  by (simp add: Setup_def Let_def doPost_calls mk_call_def basic_auth_def)

section \<open>The claims\<close>

subsection \<open>Batch mutations stop at the first failed item\<close>

text \<open>
  Claim C1, as the code has it. A batch add does not go on after a failed item. For
  every list of three items passed to \<open>AddRewriteEntries\<close> or \<open>AddClients\<close>, when the
  call for item 1 is accepted and the call for item 2 returns an error, the calls for
  items 1 and 2 are the only ones issued, in that order, no call is issued for item 3,
  and the method returns the error of item 2. The method's result is a single error, not
  a record of successes and failures.
\<close>

theorem batch_add_aborts_at_failed_item:
  "(accepted lib calls (post_call lib cl ''/rewrite/add'' (RewriteEntry_body e1))
      \<and> fst (doPost lib cl (post_body lib cl (RewriteEntry_body e2)) ''/rewrite/add''
               (calls @ [post_call lib cl ''/rewrite/add'' (RewriteEntry_body e1)]))
          = Returns (Some err)
    \<longrightarrow> AddRewriteEntries lib cl [e1, e2, e3] calls
          = (Returns (Some err),
             calls @ [post_call lib cl ''/rewrite/add'' (RewriteEntry_body e1),
                      post_call lib cl ''/rewrite/add'' (RewriteEntry_body e2)]))
   \<and> (accepted lib calls (post_call lib cl ''/clients/add'' (Client_body c1))
      \<and> fst (doPost lib cl (post_body lib cl (Client_body c2)) ''/clients/add''
               (calls @ [post_call lib cl ''/clients/add'' (Client_body c1)]))
          = Returns (Some err)
    \<longrightarrow> AddClients lib cl [c1, c2, c3] calls
          = (Returns (Some err),
             calls @ [post_call lib cl ''/clients/add'' (Client_body c1),
                      post_call lib cl ''/clients/add'' (Client_body c2)]))"
  using post_each_stops [of lib calls cl "''/rewrite/add''" "[RewriteEntry_body e1]"
          "RewriteEntry_body e2" err "[RewriteEntry_body e3]"]
        post_each_stops [of lib calls cl "''/clients/add''" "[Client_body c1]"
          "Client_body c2" err "[Client_body c3]"]
  by (simp add: AddRewriteEntries_def AddClients_def)


text \<open>
  The appliance answers 500 to the call for \<open>entry_b\<close> and 200 to every other call.
  \<open>AddRewriteEntries\<close> on \<open>entry_a\<close>, \<open>entry_b\<close>, \<open>entry_c\<close> returns the error of the
  second call and has issued two calls; the call for \<open>entry_c\<close> is not among them.
\<close>

theorem batch_add_skips_third_item:
  "fst (AddRewriteEntries (rejecting (RewriteEntry_body entry_b)) admin_client
          [entry_a, entry_b, entry_c] [])
     = Returns (Some (ErrorString ''500 Internal Server Error''))
   \<and> snd (AddRewriteEntries (rejecting (RewriteEntry_body entry_b)) admin_client
          [entry_a, entry_b, entry_c] [])
     = [post_call (rejecting (RewriteEntry_body entry_b)) admin_client ''/rewrite/add''
          (RewriteEntry_body entry_a),
        post_call (rejecting (RewriteEntry_body entry_b)) admin_client ''/rewrite/add''
          (RewriteEntry_body entry_b)]
   \<and> post_call (rejecting (RewriteEntry_body entry_b)) admin_client ''/rewrite/add''
          (RewriteEntry_body entry_c)
       \<notin> set (snd (AddRewriteEntries (rejecting (RewriteEntry_body entry_b)) admin_client
          [entry_a, entry_b, entry_c] []))"
  by (simp add: AddRewriteEntries_def doPost_def post_body_def post_call_def mk_call_def
        rejecting_def SetBody_def EnableTrace_def fresh_request_def response_def
        entry_a_def entry_b_def entry_c_def)

theorem batch_add_aborts_at_failed_item_witness:
  "accepted (rejecting (RewriteEntry_body entry_b)) []
      (post_call (rejecting (RewriteEntry_body entry_b)) admin_client ''/rewrite/add''
         (RewriteEntry_body entry_a))
   \<and> AddRewriteEntries (rejecting (RewriteEntry_body entry_b)) admin_client
          [entry_a, entry_b, entry_c] []
     = (Returns (Some (ErrorString ''500 Internal Server Error'')),
        [post_call (rejecting (RewriteEntry_body entry_b)) admin_client ''/rewrite/add''
          (RewriteEntry_body entry_a),
        post_call (rejecting (RewriteEntry_body entry_b)) admin_client ''/rewrite/add''
          (RewriteEntry_body entry_b)])
   \<and> AddClients (rejecting (Client_body \<lparr>Client.Name = ''tv''\<rparr>)) admin_client
          [\<lparr>Client.Name = ''laptop''\<rparr>, \<lparr>Client.Name = ''tv''\<rparr>, \<lparr>Client.Name = ''phone''\<rparr>] []
     = (Returns (Some (ErrorString ''500 Internal Server Error'')),
        [post_call (rejecting (Client_body \<lparr>Client.Name = ''tv''\<rparr>)) admin_client ''/clients/add''
          (Client_body \<lparr>Client.Name = ''laptop''\<rparr>),
        post_call (rejecting (Client_body \<lparr>Client.Name = ''tv''\<rparr>)) admin_client ''/clients/add''
          (Client_body \<lparr>Client.Name = ''tv''\<rparr>)])"
  using batch_add_aborts_at_failed_item [of "rejecting (RewriteEntry_body entry_b)" "[]" admin_client entry_a entry_b
          "ErrorString ''500 Internal Server Error''" entry_c]
        batch_add_aborts_at_failed_item [where lib = "rejecting (Client_body \<lparr>Client.Name = ''tv''\<rparr>)" and calls = "[]"
          and cl = admin_client and ?c1.0 = "\<lparr>Client.Name = ''laptop''\<rparr>"
          and ?c2.0 = "\<lparr>Client.Name = ''tv''\<rparr>" and ?c3.0 = "\<lparr>Client.Name = ''phone''\<rparr>"
          and err = "ErrorString ''500 Internal Server Error''"]
  by (simp add: accepted_def doPost_def post_body_def post_call_def mk_call_def
        rejecting_def SetBody_def EnableTrace_def fresh_request_def response_def
        entry_a_def entry_b_def entry_c_def)

subsection \<open>Rewrite entries: one call per entry, in order\<close>

text \<open>
  Claim C5. When every call is accepted (it completes with status 200 and no error),
  \<open>AddRewriteEntries\<close> on \<open>n\<close> entries returns nil and issues exactly \<open>n\<close> calls, one
  \<open>POST /rewrite/add\<close> per entry with that entry as its body, in the order of the list;
  \<open>DeleteRewriteEntries\<close> does the same with \<open>POST /rewrite/delete\<close>. The calls are
  written out field by field.
\<close>

theorem rewrite_batches_one_call_per_entry:
  "(all_accepted lib calls
       (map (\<lambda>e. \<lparr>call_method = POST, call_url = ''/rewrite/add'',
                    call_request = (R lib (client.client cl))
                      \<lparr>Request.Body := RewriteEntry_body e, Request.Trace := True\<rparr>,
                    call_client = client.client cl\<rparr>) entries)
      \<longrightarrow> AddRewriteEntries lib cl entries calls
          = (Returns None,
             calls @
             map (\<lambda>e. \<lparr>call_method = POST, call_url = ''/rewrite/add'',
                         call_request = (R lib (client.client cl))
                           \<lparr>Request.Body := RewriteEntry_body e, Request.Trace := True\<rparr>,
                         call_client = client.client cl\<rparr>) entries)
        \<and> length (snd (AddRewriteEntries lib cl entries calls)) = length calls + length entries)
   \<and> (all_accepted lib calls
       (map (\<lambda>e. \<lparr>call_method = POST, call_url = ''/rewrite/delete'',
                    call_request = (R lib (client.client cl))
                      \<lparr>Request.Body := RewriteEntry_body e, Request.Trace := True\<rparr>,
                    call_client = client.client cl\<rparr>) entries)
      \<longrightarrow> DeleteRewriteEntries lib cl entries calls
          = (Returns None,
             calls @
             map (\<lambda>e. \<lparr>call_method = POST, call_url = ''/rewrite/delete'',
                         call_request = (R lib (client.client cl))
                           \<lparr>Request.Body := RewriteEntry_body e, Request.Trace := True\<rparr>,
                         call_client = client.client cl\<rparr>) entries)
        \<and> length (snd (DeleteRewriteEntries lib cl entries calls)) = length calls + length entries)"
proof -
  have add: "map (post_call lib cl ''/rewrite/add'') (map RewriteEntry_body entries)
      = map (\<lambda>e. \<lparr>call_method = POST, call_url = ''/rewrite/add'',
                    call_request = (R lib (client.client cl))
                      \<lparr>Request.Body := RewriteEntry_body e, Request.Trace := True\<rparr>,
                    call_client = client.client cl\<rparr>) entries"
    by (simp add: post_call_def mk_call_def post_body_def SetBody_def EnableTrace_def)
  have del: "map (post_call lib cl ''/rewrite/delete'') (map RewriteEntry_body entries)
      = map (\<lambda>e. \<lparr>call_method = POST, call_url = ''/rewrite/delete'',
                    call_request = (R lib (client.client cl))
                      \<lparr>Request.Body := RewriteEntry_body e, Request.Trace := True\<rparr>,
                    call_client = client.client cl\<rparr>) entries"
    by (simp add: post_call_def mk_call_def post_body_def SetBody_def EnableTrace_def)
  show ?thesis
    using post_each_all_accepted [of lib calls cl "''/rewrite/add''" "map RewriteEntry_body entries"]
          post_each_all_accepted [of lib calls cl "''/rewrite/delete''" "map RewriteEntry_body entries"]
    unfolding add del
    by (auto simp: AddRewriteEntries_def DeleteRewriteEntries_def)
qed

theorem rewrite_batches_one_call_per_entry_witness:
  "AddRewriteEntries (answering ok_reply) admin_client [entry_a, entry_b, entry_c] []
       = (Returns None,
          [\<lparr>call_method = POST, call_url = ''/rewrite/add'',
            call_request = \<lparr>Request.Body = RewriteEntry_body \<lparr>Domain = ''a.example'', Answer = ''10.0.0.1''\<rparr>,
                            Result = None, Trace = True, Request.UserInfo = None\<rparr>,
            call_client = client.client admin_client\<rparr>,
           \<lparr>call_method = POST, call_url = ''/rewrite/add'',
            call_request = \<lparr>Request.Body = RewriteEntry_body \<lparr>Domain = ''b.example'', Answer = ''10.0.0.2''\<rparr>,
                            Result = None, Trace = True, Request.UserInfo = None\<rparr>,
            call_client = client.client admin_client\<rparr>,
           \<lparr>call_method = POST, call_url = ''/rewrite/add'',
            call_request = \<lparr>Request.Body = RewriteEntry_body \<lparr>Domain = ''c.example'', Answer = ''10.0.0.3''\<rparr>,
                            Result = None, Trace = True, Request.UserInfo = None\<rparr>,
            call_client = client.client admin_client\<rparr>])
   \<and> DeleteRewriteEntries (answering ok_reply) admin_client [entry_c, entry_a] []
       = (Returns None,
          [\<lparr>call_method = POST, call_url = ''/rewrite/delete'',
            call_request = \<lparr>Request.Body = RewriteEntry_body \<lparr>Domain = ''c.example'', Answer = ''10.0.0.3''\<rparr>,
                            Result = None, Trace = True, Request.UserInfo = None\<rparr>,
            call_client = client.client admin_client\<rparr>,
           \<lparr>call_method = POST, call_url = ''/rewrite/delete'',
            call_request = \<lparr>Request.Body = RewriteEntry_body \<lparr>Domain = ''a.example'', Answer = ''10.0.0.1''\<rparr>,
                            Result = None, Trace = True, Request.UserInfo = None\<rparr>,
            call_client = client.client admin_client\<rparr>])"
  using rewrite_batches_one_call_per_entry [of "answering ok_reply" "[]" admin_client "[entry_a, entry_b, entry_c]"]
        rewrite_batches_one_call_per_entry [of "answering ok_reply" "[]" admin_client "[entry_c, entry_a]"]
  by (simp add: accepted_def answering_def response_def ok_reply_def fresh_request_def
        entry_a_def entry_b_def entry_c_def)

subsection \<open>The setup-required signal\<close>

text \<open>
  Claim C2. \<open>doGet\<close>, and with it every read operation, returns \<open>ErrSetupNeeded\<close> if and
  only if the library reports the request as failed together with a response of status
  302 whose \<open>Location\<close> header is \<open>/install.html\<close> (a client that does not follow the
  redirect gets the redirect response with an error). Any other failed request that
  comes with a response, a redirect elsewhere or a transport failure, returns the
  library's error unchanged.
\<close>

theorem read_setup_needed_iff_install_redirect:
  "(fst (doGet lib cl req url calls) = Returns (Some ErrSetupNeeded)
      \<longleftrightarrow> redirected_to_install (Execute lib calls (mk_call GET cl req url)))
   \<and> (fst (read lib cl op calls) = Returns (Some ErrSetupNeeded)
      \<longleftrightarrow> redirected_to_install (Execute lib calls (read_call lib cl op)))
   \<and> (Execute lib calls (mk_call GET cl req url) = (Some r, Some e)
        \<and> \<not> redirected_to_install (Some r, Some e)
      \<longrightarrow> fst (doGet lib cl req url calls) = Returns (Some (ForeignError e)))"
  by (simp add: read_doGet read_call_def doGet_result redirected_to_install_def split: prod.splits option.splits)

theorem read_setup_needed_iff_install_redirect_witness:
  "redirected_to_install
     (Execute (answering install_redirect) [] (read_call (answering install_redirect) admin_client Status_op))
   \<and> fst (read (answering install_redirect) admin_client Status_op []) = Returns (Some ErrSetupNeeded)
   \<and> fst (doGet (answering install_redirect) admin_client fresh_request ''status'' [])
       = Returns (Some ErrSetupNeeded)
   \<and> \<not> redirected_to_install login_redirect
   \<and> fst (doGet (answering login_redirect) admin_client fresh_request ''status'' [])
       = Returns (Some (ForeignError ''auto redirect is disabled''))"
  using read_setup_needed_iff_install_redirect [where lib = "answering install_redirect" and calls = "[]" and cl = admin_client
          and op = Status_op and req = fresh_request and url = "''status''"]
        read_setup_needed_iff_install_redirect [where lib = "answering login_redirect" and calls = "[]" and cl = admin_client
          and op = Status_op and req = fresh_request and url = "''status''"
          and r = "the (fst login_redirect)" and e = "''auto redirect is disabled''"]
  by (simp add: answering_def install_redirect_def login_redirect_def redirected_to_install_def
        Header_Get_def)


text \<open>
  Claim C3, as the code has it. Only reads give the setup-required signal. Every read
  returns \<open>ErrSetupNeeded\<close> when its call is redirected to \<open>/install.html\<close>. No mutation
  (add, update, delete, set, toggle, \<open>Setup\<close>) ever returns \<open>ErrSetupNeeded\<close>: \<open>doPost\<close>
  has no redirect check, and a failed call that comes with a response returns the
  library's error unchanged, whatever the status and the \<open>Location\<close>.
\<close>

theorem setup_needed_only_from_reads:
  "(redirected_to_install (Execute lib calls (read_call lib cl op))
      \<longrightarrow> fst (read lib cl op calls) = Returns (Some ErrSetupNeeded))
   \<and> fst (mutate lib cl m calls) \<noteq> Returns (Some ErrSetupNeeded)
   \<and> (Execute lib calls (mk_call POST cl req url) = (Some r, Some e)
      \<longrightarrow> fst (doPost lib cl req url calls) = Returns (Some (ForeignError e)))"
  by (simp add: mutate_not_setup read_doGet read_call_def doGet_result doPost_result
        redirected_to_install_def split: prod.splits option.splits)


text \<open>
  An appliance that was never set up redirects every call to \<open>/install.html\<close>.
  \<open>ToggleProtection\<close> and \<open>AddRewriteEntries\<close> return the library's redirect error, not
  \<open>ErrSetupNeeded\<close>.
\<close>

theorem mutation_install_redirect_generic_error:
  "redirected_to_install
     (Execute (answering install_redirect) []
        (post_call (answering install_redirect) admin_client ''/dns_config'' (Protection_body True)))
   \<and> fst (mutate (answering install_redirect) admin_client (ToggleProtection_op True) [])
       = Returns (Some (ForeignError ''auto redirect is disabled''))
   \<and> fst (mutate (answering install_redirect) admin_client (AddRewriteEntries_op [entry_a]) [])
       = Returns (Some (ForeignError ''auto redirect is disabled''))"
  by (simp add: ToggleProtection_def AddRewriteEntries_def doPost_def answering_def
        install_redirect_def redirected_to_install_def Header_Get_def)

theorem setup_needed_only_from_reads_witness:
  "redirected_to_install
     (Execute (answering install_redirect) [] (read_call (answering install_redirect) admin_client Clients_op))
   \<and> fst (read (answering install_redirect) admin_client Clients_op []) = Returns (Some ErrSetupNeeded)
   \<and> fst (mutate (answering install_redirect) admin_client Setup_op []) \<noteq> Returns (Some ErrSetupNeeded)
   \<and> fst (doPost (answering install_redirect) admin_client fresh_request ''/clients/add'' [])
       = Returns (Some (ForeignError ''auto redirect is disabled''))"
  using setup_needed_only_from_reads [where lib = "answering install_redirect" and calls = "[]" and cl = admin_client
          and op = Clients_op and m = Setup_op and req = fresh_request and url = "''/clients/add''"
          and r = "the (fst install_redirect)" and e = "''auto redirect is disabled''"]
  by (simp add: answering_def install_redirect_def redirected_to_install_def Header_Get_def)

subsection \<open>Status of a completed request\<close>

text \<open>
  Claim C4, as the code has it. When a request completes with a response whose status
  is not 200, the operation returns an error, and the response body is never part of
  it. If the library reports no error, the error's message is the response's status
  line \<open>resp.Status()\<close>, such as \<open>404 Not Found\<close>. If the library reports an error with
  the response (a refused redirect, a body that does not decode), \<open>doGet\<close> and \<open>doPost\<close>
  return the library's error unchanged, whatever the status, except that \<open>doGet\<close>
  returns \<open>ErrSetupNeeded\<close> for a 302 to \<open>/install.html\<close>. Every read is \<open>doGet\<close> on its
  own request and path, and a mutation that returns an error returns the error of the
  last call it issued.
\<close>

theorem non_200_error_is_status_line_or_library_error:
  "(Execute lib calls
        \<lparr>call_method = GET, call_url = url, call_request = req, call_client = client.client cl\<rparr>
      = (Some r, None) \<and> Response.StatusCode r \<noteq> 200
      \<longrightarrow> fst (doGet lib cl req url calls) = Returns (Some (ErrorString (Response.Status r))))
   \<and> (Execute lib calls
        \<lparr>call_method = GET, call_url = url, call_request = req, call_client = client.client cl\<rparr>
      = (Some r, Some e)
      \<longrightarrow> fst (doGet lib cl req url calls)
          = Returns (Some (if Response.StatusCode r = 302
                              \<and> Header_Get (Response.Header r) ''Location'' = ''/install.html''
                           then ErrSetupNeeded else ForeignError e)))
   \<and> (Execute lib calls
        \<lparr>call_method = POST, call_url = url, call_request = req, call_client = client.client cl\<rparr>
      = (Some r, None) \<and> Response.StatusCode r \<noteq> 200
      \<longrightarrow> fst (doPost lib cl req url calls) = Returns (Some (ErrorString (Response.Status r))))
   \<and> (Execute lib calls
        \<lparr>call_method = POST, call_url = url, call_request = req, call_client = client.client cl\<rparr>
      = (Some r, Some e)
      \<longrightarrow> fst (doPost lib cl req url calls) = Returns (Some (ForeignError e)))
   \<and> read lib cl op calls
      = doGet lib cl ((R lib (client.client cl))\<lparr>Request.Trace := True,
                        Request.Result := Some (read_target op)\<rparr>) (read_url op) calls
   \<and> (fst (mutate lib cl m calls) = Returns (Some err)
      \<longrightarrow> fst (doPost lib cl (call_request (last (snd (mutate lib cl m calls))))
                 (call_url (last (snd (mutate lib cl m calls))))
                 (butlast (snd (mutate lib cl m calls))))
          = Returns (Some err))"
  using mutate_error_is_last [of lib cl m calls err]
  by (simp add: doGet_result doPost_result mk_call_def read_doGet SetResult_def EnableTrace_def)

text \<open>
  Two 500 responses that differ in their bodies give the same error, whose message is
  the status line alone. A refused redirect to \<open>/login.html\<close> gives the library's
  error, which has neither the status nor the body.
\<close>

theorem non_200_error_omits_body:
  "fst (doGet (answering (Some (response 500 ''500 Internal Server Error'' ''boom''), None))
          admin_client fresh_request ''status'' [])
     = Returns (Some (ErrorString ''500 Internal Server Error''))
   \<and> fst (doGet (answering (Some (response 500 ''500 Internal Server Error'' ''bang''), None))
          admin_client fresh_request ''status'' [])
     = Returns (Some (ErrorString ''500 Internal Server Error''))
   \<and> fst (doPost (answering (Some (response 500 ''500 Internal Server Error'' ''boom''), None))
          admin_client fresh_request ''/dns_config'' [])
     = Returns (Some (ErrorString ''500 Internal Server Error''))
   \<and> Response.Body (response 500 ''500 Internal Server Error'' ''boom'')
       \<noteq> Response.Body (response 500 ''500 Internal Server Error'' ''bang'')
   \<and> fst (doGet (answering login_redirect) admin_client fresh_request ''status'' [])
     = Returns (Some (ForeignError ''auto redirect is disabled''))
   \<and> fst (doPost (answering login_redirect) admin_client fresh_request ''/dns_config'' [])
     = Returns (Some (ForeignError ''auto redirect is disabled''))"
  by (simp add: doGet_def doPost_def answering_def response_def login_redirect_def Header_Get_def)

theorem non_200_error_is_status_line_or_library_error_witness:
  "Response.StatusCode (response 404 ''404 Not Found'' ''no such page'') \<noteq> 200
   \<and> fst (doGet (answering (Some (response 404 ''404 Not Found'' ''no such page''), None))
          admin_client fresh_request ''status'' [])
     = Returns (Some (ErrorString ''404 Not Found''))
   \<and> fst (doPost (answering (Some (response 404 ''404 Not Found'' ''no such page''), None))
          admin_client fresh_request ''/dns_config'' [])
     = Returns (Some (ErrorString ''404 Not Found''))
   \<and> fst (doGet (answering login_redirect) admin_client fresh_request ''status'' [])
     = Returns (Some (ForeignError ''auto redirect is disabled''))
   \<and> fst (doGet (answering install_redirect) admin_client fresh_request ''status'' [])
     = Returns (Some ErrSetupNeeded)
   \<and> fst (doPost (answering install_redirect) admin_client fresh_request ''/dns_config'' [])
     = Returns (Some (ForeignError ''auto redirect is disabled''))
   \<and> fst (mutate (rejecting (RewriteEntry_body entry_b)) admin_client
             (AddRewriteEntries_op [entry_a, entry_b, entry_c]) [])
     = Returns (Some (ErrorString ''500 Internal Server Error''))
   \<and> fst (doPost (rejecting (RewriteEntry_body entry_b)) admin_client
             (fresh_request\<lparr>Request.Body := RewriteEntry_body entry_b, Request.Trace := True\<rparr>)
             ''/rewrite/add''
             [\<lparr>call_method = POST, call_url = ''/rewrite/add'',
               call_request = fresh_request\<lparr>Request.Body := RewriteEntry_body entry_a,
                                              Request.Trace := True\<rparr>,
               call_client = client.client admin_client\<rparr>])
     = Returns (Some (ErrorString ''500 Internal Server Error''))"
proof -
  let ?L = "rejecting (RewriteEntry_body entry_b)"
  let ?m = "AddRewriteEntries_op [entry_a, entry_b, entry_c]"
  have run: "mutate ?L admin_client ?m []
       = (Returns (Some (ErrorString ''500 Internal Server Error'')),
          [\<lparr>call_method = POST, call_url = ''/rewrite/add'',
            call_request = fresh_request\<lparr>Request.Body := RewriteEntry_body entry_a,
                                           Request.Trace := True\<rparr>,
            call_client = client.client admin_client\<rparr>,
           \<lparr>call_method = POST, call_url = ''/rewrite/add'',
            call_request = fresh_request\<lparr>Request.Body := RewriteEntry_body entry_b,
                                           Request.Trace := True\<rparr>,
            call_client = client.client admin_client\<rparr>])"
    by (simp add: AddRewriteEntries_def doPost_def post_body_def mk_call_def
          rejecting_def SetBody_def EnableTrace_def fresh_request_def response_def
          entry_a_def entry_b_def entry_c_def)
  have a: "fst (doGet (answering (Some (response 404 ''404 Not Found'' ''no such page''), None))
          admin_client fresh_request ''status'' [])
     = Returns (Some (ErrorString ''404 Not Found''))"
   and b: "fst (doPost (answering (Some (response 404 ''404 Not Found'' ''no such page''), None))
          admin_client fresh_request ''/dns_config'' [])
     = Returns (Some (ErrorString ''404 Not Found''))"
    using non_200_error_is_status_line_or_library_error [where lib = "answering (Some (response 404 ''404 Not Found'' ''no such page''), None)"
          and calls = "[]" and cl = admin_client and req = fresh_request and url = "''status''"
          and r = "response 404 ''404 Not Found'' ''no such page''"]
        non_200_error_is_status_line_or_library_error [where lib = "answering (Some (response 404 ''404 Not Found'' ''no such page''), None)"
          and calls = "[]" and cl = admin_client and req = fresh_request and url = "''/dns_config''"
          and r = "response 404 ''404 Not Found'' ''no such page''"]
    by (simp_all add: answering_def response_def)
  have c: "fst (doGet (answering login_redirect) admin_client fresh_request ''status'' [])
     = Returns (Some (ForeignError ''auto redirect is disabled''))"
    using non_200_error_is_status_line_or_library_error [where lib = "answering login_redirect"
          and calls = "[]" and cl = admin_client and req = fresh_request and url = "''status''"
          and r = "the (fst login_redirect)" and e = "''auto redirect is disabled''"]
    by (simp add: answering_def login_redirect_def Header_Get_def)
  have d: "fst (doGet (answering install_redirect) admin_client fresh_request ''status'' [])
     = Returns (Some ErrSetupNeeded)"
   and e: "fst (doPost (answering install_redirect) admin_client fresh_request ''/dns_config'' [])
     = Returns (Some (ForeignError ''auto redirect is disabled''))"
    using non_200_error_is_status_line_or_library_error [where lib = "answering install_redirect"
          and calls = "[]" and cl = admin_client and req = fresh_request and url = "''status''"
          and r = "the (fst install_redirect)" and e = "''auto redirect is disabled''"]
        non_200_error_is_status_line_or_library_error [where lib = "answering install_redirect"
          and calls = "[]" and cl = admin_client and req = fresh_request and url = "''/dns_config''"
          and r = "the (fst install_redirect)" and e = "''auto redirect is disabled''"]
    by (simp_all add: answering_def install_redirect_def Header_Get_def)
  have f: "fst (doPost ?L admin_client
             (fresh_request\<lparr>Request.Body := RewriteEntry_body entry_b, Request.Trace := True\<rparr>)
             ''/rewrite/add''
             [\<lparr>call_method = POST, call_url = ''/rewrite/add'',
               call_request = fresh_request\<lparr>Request.Body := RewriteEntry_body entry_a,
                                              Request.Trace := True\<rparr>,
               call_client = client.client admin_client\<rparr>])
     = Returns (Some (ErrorString ''500 Internal Server Error''))"
    using non_200_error_is_status_line_or_library_error [where lib = ?L and cl = admin_client and m = ?m and calls = "[]"
          and err = "ErrorString ''500 Internal Server Error''"] run
    by simp
  show ?thesis using a b c d e f run by (simp add: response_def)
qed

text \<open>
  Claim C8, as the code has it. An operation succeeds if and only if every call it
  issues completes with no error reported by the library and with a response status of
  exactly 200. A read and a single-call mutation issue one call; a batch mutation
  succeeds if and only if each call it issued was accepted when it was issued. Every
  other status, 204 and the other 2xx included, is returned as an error by \<open>doGet\<close> and
  \<open>doPost\<close>, and so by reads and mutations; so is a 200 response that comes with a
  library error.
\<close>

theorem success_iff_no_error_and_status_200:
  "(fst (doGet lib cl req url calls) = Returns None
      \<longleftrightarrow> (\<exists>r. Execute lib calls
                  \<lparr>call_method = GET, call_url = url, call_request = req,
                   call_client = client.client cl\<rparr> = (Some r, None)
               \<and> Response.StatusCode r = 200))
   \<and> (fst (doPost lib cl req url calls) = Returns None
      \<longleftrightarrow> (\<exists>r. Execute lib calls
                  \<lparr>call_method = POST, call_url = url, call_request = req,
                   call_client = client.client cl\<rparr> = (Some r, None)
               \<and> Response.StatusCode r = 200))
   \<and> (fst (read lib cl op calls) = Returns None
      \<longleftrightarrow> (\<exists>r. Execute lib calls
                  \<lparr>call_method = GET, call_url = read_url op,
                   call_request = (R lib (client.client cl))
                     \<lparr>Request.Trace := True, Request.Result := Some (read_target op)\<rparr>,
                   call_client = client.client cl\<rparr> = (Some r, None)
               \<and> Response.StatusCode r = 200))
   \<and> (fst (mutate lib cl m calls) = Returns None
      \<longleftrightarrow> all_accepted lib calls (drop (length calls) (snd (mutate lib cl m calls))))
   \<and> (accepted lib calls c
      \<longleftrightarrow> (\<exists>r. Execute lib calls c = (Some r, None) \<and> Response.StatusCode r = 200))
   \<and> (Execute lib calls
        \<lparr>call_method = GET, call_url = url, call_request = req, call_client = client.client cl\<rparr>
        = (Some r, e) \<and> Response.StatusCode r \<noteq> 200
      \<longrightarrow> (\<exists>err. fst (doGet lib cl req url calls) = Returns (Some err)))
   \<and> (Execute lib calls
        \<lparr>call_method = POST, call_url = url, call_request = req, call_client = client.client cl\<rparr>
        = (Some r, e) \<and> Response.StatusCode r \<noteq> 200
      \<longrightarrow> (\<exists>err. fst (doPost lib cl req url calls) = Returns (Some err)))"
proof -
  have acc: "\<And>c. accepted lib calls c
      \<longleftrightarrow> (\<exists>r. Execute lib calls c = (Some r, None) \<and> Response.StatusCode r = 200)"
    by (auto simp: accepted_def split: prod.splits option.splits)
  have g: "fst (doGet lib cl req url calls) = Returns None
      \<longleftrightarrow> (\<exists>r. Execute lib calls
                  \<lparr>call_method = GET, call_url = url, call_request = req,
                   call_client = client.client cl\<rparr> = (Some r, None)
               \<and> Response.StatusCode r = 200)" for req url
    using acc [of "mk_call GET cl req url"] by (simp add: doGet_accepted mk_call_def)
  have p: "fst (doPost lib cl req url calls) = Returns None
      \<longleftrightarrow> (\<exists>r. Execute lib calls
                  \<lparr>call_method = POST, call_url = url, call_request = req,
                   call_client = client.client cl\<rparr> = (Some r, None)
               \<and> Response.StatusCode r = 200)"
    using acc [of "mk_call POST cl req url"] by (simp add: doPost_accepted mk_call_def)
  have rd: "fst (read lib cl op calls) = Returns None
      \<longleftrightarrow> (\<exists>r. Execute lib calls
                  \<lparr>call_method = GET, call_url = read_url op,
                   call_request = (R lib (client.client cl))
                     \<lparr>Request.Trace := True, Request.Result := Some (read_target op)\<rparr>,
                   call_client = client.client cl\<rparr> = (Some r, None)
               \<and> Response.StatusCode r = 200)"
    using g [of "SetResult (read_target op) (EnableTrace (R lib (client.client cl)))" "read_url op"]
    by (simp add: read_doGet SetResult_def EnableTrace_def)
  have ge: "Execute lib calls
        \<lparr>call_method = GET, call_url = url, call_request = req, call_client = client.client cl\<rparr>
        = (Some r, e) \<and> Response.StatusCode r \<noteq> 200
      \<longrightarrow> (\<exists>err. fst (doGet lib cl req url calls) = Returns (Some err))"
    by (cases e) (simp_all add: doGet_result mk_call_def)
  have pe: "Execute lib calls
        \<lparr>call_method = POST, call_url = url, call_request = req, call_client = client.client cl\<rparr>
        = (Some r, e) \<and> Response.StatusCode r \<noteq> 200
      \<longrightarrow> (\<exists>err. fst (doPost lib cl req url calls) = Returns (Some err))"
    by (cases e) (simp_all add: doPost_result mk_call_def)
  show ?thesis
    using g [of req url] p rd mutate_accepts_issued [of lib cl m calls] acc [of c] ge pe
    by blast
qed

text \<open>
  A 200 response whose body does not decode comes with a library error: the read
  returns that error, although the status is 200.
\<close>

theorem status_200_with_library_error_fails:
  "Response.StatusCode (the (fst decode_failure)) = 200
   \<and> fst (read (answering decode_failure) admin_client Status_op [])
       = Returns (Some (ForeignError ''invalid character in response body''))
   \<and> fst (doGet (answering decode_failure) admin_client fresh_request ''status'' []) \<noteq> Returns None"
  by (simp add: Status_def doGet_def answering_def decode_failure_def response_def Header_Get_def)

theorem success_iff_no_error_and_status_200_witness:
  "fst (doGet (answering (Some (response 204 ''204 No Content'' []), None))
          admin_client fresh_request ''status'' []) = Returns (Some (ErrorString ''204 No Content''))
   \<and> fst (doPost (answering (Some (response 204 ''204 No Content'' []), None))
          admin_client fresh_request ''/dns_config'' []) = Returns (Some (ErrorString ''204 No Content''))
   \<and> fst (read (answering (Some (response 204 ''204 No Content'' []), None))
          admin_client Clients_op []) \<noteq> Returns None
   \<and> fst (mutate (answering (Some (response 204 ''204 No Content'' []), None))
          admin_client (AddClients_op [\<lparr>Client.Name = ''tv''\<rparr>]) []) \<noteq> Returns None
   \<and> fst (doGet (answering ok_reply) admin_client fresh_request ''status'' []) = Returns None
   \<and> fst (doPost (answering ok_reply) admin_client fresh_request ''/dns_config'' []) = Returns None
   \<and> fst (read (answering ok_reply) admin_client Clients_op []) = Returns None
   \<and> fst (mutate (answering ok_reply) admin_client
            (AddClients_op [\<lparr>Client.Name = ''tv''\<rparr>, \<lparr>Client.Name = ''phone''\<rparr>]) []) = Returns None
   \<and> fst (read (answering decode_failure) admin_client Clients_op []) \<noteq> Returns None"
proof -
  let ?N = "answering (Some (response 204 ''204 No Content'' []), None)"
  have n1: "fst (read ?N admin_client Clients_op []) \<noteq> Returns None"
    using success_iff_no_error_and_status_200 [where lib = ?N and cl = admin_client and op = Clients_op and calls = "[]"]
    by (simp add: answering_def response_def)
  have n2: "fst (mutate ?N admin_client (AddClients_op [\<lparr>Client.Name = ''tv''\<rparr>]) []) \<noteq> Returns None"
    using success_iff_no_error_and_status_200 [where lib = ?N and cl = admin_client and calls = "[]"
            and m = "AddClients_op [\<lparr>Client.Name = ''tv''\<rparr>]"]
    by (simp add: AddClients_def doPost_def accepted_def answering_def response_def)
  have n3: "fst (doGet ?N admin_client fresh_request ''status'' []) = Returns (Some (ErrorString ''204 No Content''))"
    and n4: "fst (doPost ?N admin_client fresh_request ''/dns_config'' []) = Returns (Some (ErrorString ''204 No Content''))"
    by (simp_all add: doGet_def doPost_def answering_def response_def)
  have o1: "fst (doGet (answering ok_reply) admin_client fresh_request ''status'' []) = Returns None"
    and o2: "fst (doPost (answering ok_reply) admin_client fresh_request ''/dns_config'' []) = Returns None"
    and o3: "fst (read (answering ok_reply) admin_client Clients_op []) = Returns None"
    using success_iff_no_error_and_status_200 [where lib = "answering ok_reply" and cl = admin_client and op = Clients_op
            and calls = "[]" and req = fresh_request and url = "''status''"]
          success_iff_no_error_and_status_200 [where lib = "answering ok_reply" and cl = admin_client and op = Clients_op
            and calls = "[]" and req = fresh_request and url = "''/dns_config''"]
    by (simp_all add: answering_def response_def ok_reply_def)
  have o4: "fst (mutate (answering ok_reply) admin_client
            (AddClients_op [\<lparr>Client.Name = ''tv''\<rparr>, \<lparr>Client.Name = ''phone''\<rparr>]) []) = Returns None"
    by (simp add: AddClients_def doPost_def answering_def response_def ok_reply_def)
  have d1: "fst (read (answering decode_failure) admin_client Clients_op []) \<noteq> Returns None"
    using success_iff_no_error_and_status_200 [where lib = "answering decode_failure" and cl = admin_client and op = Clients_op
            and calls = "[]"]
    by (simp add: answering_def decode_failure_def response_def)
  show ?thesis using n1 n2 n3 n4 o1 o2 o3 o4 d1 by simp
qed

subsection \<open>Provisioning\<close>

text \<open>
  Claim C6. \<open>Setup\<close> issues exactly one call, whatever the library answers: a POST to
  \<open>/install/configure\<close> whose body is the initial configuration with the web interface
  at 0.0.0.0 port 3000 and DNS at 0.0.0.0 port 53, and with the client's username and
  password as the admin account when the client has credentials (empty strings when it
  has none). A client built by \<open>New\<close> from an instance with a username and a password
  has exactly these as its credentials.
\<close>

theorem Setup_issues_one_provisioning_call:
  "snd (Setup lib cl calls) =
     calls @
       [\<lparr>call_method = POST, call_url = ''/install/configure'',
         call_request =
           (R lib (client.client cl))
             \<lparr>Request.Body :=
                InitialConfiguration_body
                  \<lparr>Web = \<lparr>AddressInfo.Ip = ''0.0.0.0'', Port = 3000\<rparr>,
                   Dns = \<lparr>AddressInfo.Ip = ''0.0.0.0'', Port = 53\<rparr>,
                   InitialConfiguration.Username =
                     (case resty_Client.UserInfo (client.client cl) of
                        Some u \<Rightarrow> User.Username u | None \<Rightarrow> []),
                   InitialConfiguration.Password =
                     (case resty_Client.UserInfo (client.client cl) of
                        Some u \<Rightarrow> User.Password u | None \<Rightarrow> [])\<rparr>,
              Request.Trace := True, Request.UserInfo := None\<rparr>,
         call_client = client.client cl\<rparr>]
   \<and> (New std env inst = Inr cl
        \<and> AdGuardInstance.Username inst \<noteq> [] \<and> AdGuardInstance.Password inst \<noteq> []
      \<longrightarrow> resty_Client.UserInfo (client.client cl) =
            Some \<lparr>User.Username = AdGuardInstance.Username inst,
                  User.Password = AdGuardInstance.Password inst\<rparr>)"
proof -
  have "snd (Setup lib cl calls) =
          calls @ [mk_call POST cl
            ((post_body lib cl (InitialConfiguration_body (Setup_cfg cl)))\<lparr>Request.UserInfo := None\<rparr>)
            ''/install/configure'']"
    by (simp add: Setup_def Let_def doPost_calls)
  moreover have "Setup_cfg cl =
      \<lparr>Web = \<lparr>AddressInfo.Ip = ''0.0.0.0'', Port = 3000\<rparr>,
       Dns = \<lparr>AddressInfo.Ip = ''0.0.0.0'', Port = 53\<rparr>,
       InitialConfiguration.Username =
         (case resty_Client.UserInfo (client.client cl) of Some u \<Rightarrow> User.Username u | None \<Rightarrow> []),
       InitialConfiguration.Password =
         (case resty_Client.UserInfo (client.client cl) of Some u \<Rightarrow> User.Password u | None \<Rightarrow> [])\<rparr>"
    by (simp add: Setup_cfg_def Let_def split: option.splits)
  ultimately show ?thesis
    using New_UserInfo [of std env inst cl]
    by (simp add: mk_call_def post_body_def SetBody_def EnableTrace_def)
qed

theorem Setup_issues_one_provisioning_call_witness:
  "New stub_stdlib Map.empty admin_instance = Inr admin_client
   \<and> snd (Setup (answering ok_reply) admin_client []) =
       [\<lparr>call_method = POST, call_url = ''/install/configure'',
         call_request =
           \<lparr>Request.Body =
                InitialConfiguration_body
                  \<lparr>Web = \<lparr>AddressInfo.Ip = ''0.0.0.0'', Port = 3000\<rparr>,
                   Dns = \<lparr>AddressInfo.Ip = ''0.0.0.0'', Port = 53\<rparr>,
                   InitialConfiguration.Username = ''admin'',
                   InitialConfiguration.Password = ''secret''\<rparr>,
            Result = None, Trace = True, Request.UserInfo = None\<rparr>,
         call_client = client.client admin_client\<rparr>]"
  using Setup_issues_one_provisioning_call [of "answering ok_reply" admin_client "[]" stub_stdlib Map.empty admin_instance]
  by (simp add: New_def Let_def stub_stdlib_def admin_instance_def admin_client_def
        resty_New_def apiURL_def envRedirectPolicyNoOfRedirects_def answering_def
        fresh_request_def)


text \<open>
  Claim C9 does not hold of the code. \<open>Setup\<close> sets the \<open>UserInfo\<close> of its request to
  nil, and the library then takes the credentials of the client for the basic-auth
  header. For the client with the credentials \<open>admin\<close> and \<open>secret\<close>, the provisioning
  request has no credentials of its own and carries the basic-auth header of the
  client's credentials, besides the credentials in its body.
\<close>

theorem Setup_request_carries_client_basic_auth:
  "Request.UserInfo (call_request (last (snd (Setup (answering ok_reply) admin_client [])))) = None
   \<and> basic_auth (last (snd (Setup (answering ok_reply) admin_client [])))
       = Some \<lparr>User.Username = ''admin'', User.Password = ''secret''\<rparr>"
  by (simp add: Setup_basic_auth)
     (simp add: Setup_def Let_def doPost_calls mk_call_def admin_client_def)

subsection \<open>Construction\<close>

text \<open>
  Claim C7. When \<open>url.Parse\<close> fails on the instance's URL joined with \<open>/control\<close> or
  with the API-path override, \<open>New\<close> returns that error and no client, whatever the
  environment holds. \<open>New\<close> issues no call, so no operation can follow for the instance.
\<close>

theorem New_rejects_unparsable_URL:
  "url_Parse std (apiURL config) = Inl err \<Longrightarrow> New std env config = Inl (ForeignError err)"
  by (simp add: New_def)

theorem New_rejects_unparsable_URL_witness:
  "url_Parse stub_stdlib (apiURL bad_instance) = Inl ''invalid character in host name''
   \<and> New stub_stdlib Map.empty bad_instance = Inl (ForeignError ''invalid character in host name'')
   \<and> New stub_stdlib [envRedirectPolicyNoOfRedirects \<mapsto> ''3''] bad_instance
       = Inl (ForeignError ''invalid character in host name'')"
proof -
  have p: "url_Parse stub_stdlib (apiURL bad_instance) = Inl ''invalid character in host name''"
    by (simp add: stub_stdlib_def apiURL_def bad_instance_def)
  show ?thesis
    using p New_rejects_unparsable_URL [OF p, of Map.empty] New_rejects_unparsable_URL [OF p, of "[envRedirectPolicyNoOfRedirects \<mapsto> ''3'']"]
    by simp
qed

subsection \<open>Pointer helpers\<close>

text \<open>
  Claim C10. \<open>FromB (ToB b) = b\<close> for every boolean \<open>b\<close>, \<open>FromB\<close> of nil is false,
  \<open>FromQueryLogConfigInterval\<close> of a pointer to \<open>i\<close> is \<open>i\<close>, and of nil is 0.
\<close>

theorem pointer_helpers_round_trip: "FromB (ToB b) = b \<and> FromB None = False
   \<and> FromQueryLogConfigInterval (Some i) = i \<and> FromQueryLogConfigInterval None = 0"
  by (simp add: ToB_def)

theorem pointer_helpers_round_trip_witness:
  "FromB (ToB True) = True \<and> FromB (ToB False) = False \<and> FromB None = False
   \<and> FromQueryLogConfigInterval (Some 90) = 90 \<and> FromQueryLogConfigInterval None = 0"
  using pointer_helpers_round_trip [of True 90] pointer_helpers_round_trip [of False 90] by simp

end
